theory Spec2Isabelle
  imports Complex_Main "HOL-Library.Word"
begin

unbundle bit_operations_syntax

section \<open>Values and errors\<close>

text \<open>
  Plain JavaScript values: the entries of a vault's \<open>insensitive\<close> object (the
  strings \<open>keyRingName\<close> and \<open>keyRingType\<close>, the coin type of a chain, the object
  \<open>{pubKey: hex}\<close> of a Ledger app), and the typed data, calls and signer details
  handed to the Starknet service. An object is the list of its properties; a read finds
  the first binding of a key.
\<close>

datatype plain =
    PUndefined
  | PNull
  | PBool bool
  | PNum int
  | PStr string
  | PArr "plain list"
  | PObj "(string \<times> plain) list"

text \<open>JavaScript truthiness, as used by \<open>if (vault.insensitive[key])\<close>: \<open>undefined\<close>
  (also what a missing key reads), \<open>null\<close>, \<open>false\<close>, the number zero and the empty
  string are falsy; every array and object is truthy.\<close>

fun truthy :: "plain option \<Rightarrow> bool" where
  "truthy None = False"
| "truthy (Some PUndefined) = False"
| "truthy (Some PNull) = False"
| "truthy (Some (PBool b)) = b"
| "truthy (Some (PNum n)) = (n \<noteq> 0)"
| "truthy (Some (PStr s)) = (s \<noteq> [])"
| "truthy (Some (PArr xs)) = True"
| "truthy (Some (PObj kvs)) = True"

datatype hd_field = Account | Change | AddressIndex

text \<open>Every \<open>throw new Error(...)\<close> of the two services is a constructor; the comment
  gives the message of the source.\<close>

datatype error =
    Locked                \<comment> \<open>KeyRing is locked\<close>
  | EmptyKeyRing          \<comment> \<open>Key ring is empty\<close>
  | UnknownVault          \<comment> \<open>Unknown vault\<close>
  | VaultIsNull           \<comment> \<open>Vault is null\<close>
  | UnknownChain          \<comment> \<open>thrown by getChainInfoOrThrow / getModularChainInfoOrThrow\<close>
  | UnsupportedCoinType   \<comment> \<open>Coin type is not associated to chain\<close>
  | NotMnemonic           \<comment> \<open>Key is not from mnemonic\<close>
  | AlreadyFinalized      \<comment> \<open>Coin type is already finalized\<close>
  | NotLedger             \<comment> \<open>Key is not from ledger\<close>
  | AppAlreadyAppended    \<comment> \<open>App is already appended\<close>
  | PasswordMismatch      \<comment> \<open>thrown by checkUserPassword\<close>
  | UnsupportedKeyRing    \<comment> \<open>Unsupported keyRing vault\<close>
  | InvalidInput hd_field \<comment> \<open>Invalid account / change / address index in hd path\<close>
  | NotStarknetChain      \<comment> \<open>Chain is not a starknet chain\<close>
  | InvalidSigner         \<comment> \<open>Invalid signer\<close>
  | UnsupportedVersion    \<comment> \<open>unsupported sign...Transaction version\<close>
  | EDAMConversion        \<comment> \<open>EDAM conversion\<close>
  | InvalidSignature      \<comment> \<open>Invalid signature\<close>
  | External string       \<comment> \<open>an error raised by a collaborator outside the two services\<close>

text \<open>A call that hands back a promise either throws before the promise exists
  (\<open>Inl\<close>), or returns a promise that later rejects or resolves.\<close>

datatype 'a promise = Rejected error | Resolved 'a

type_synonym bytes = "8 word list"

section \<open>Bytes and hexadecimal strings\<close>

definition hexDigit :: "nat \<Rightarrow> char" where
  "hexDigit d = ''0123456789abcdef'' ! (d mod 16)"

text \<open>\<open>Buffer.from(bytes).toString("hex")\<close>: two lower-case digits per byte.\<close>

definition toHex :: "bytes \<Rightarrow> string" where
  "toHex bs = concat (map (\<lambda>b. [hexDigit (unat b div 16), hexDigit (unat b mod 16)]) bs)"

text \<open>\<open>toString(16)\<close> of a non-negative integer: no leading zeros, \<open>0\<close> for zero.\<close>

fun toString16 :: "nat \<Rightarrow> string" where
  "toString16 n =
     (if n < 16 then [hexDigit n] else toString16 (n div 16) @ [hexDigit (n mod 16)])"

declare toString16.simps [simp del]

text \<open>\<open>Number.prototype.toString(16)\<close> on an integral number: a minus sign, then the
  digits of the magnitude.\<close>

definition numberToString16 :: "int \<Rightarrow> string" where
  "numberToString16 v = (if v < 0 then ''-'' @ toString16 (nat (- v)) else toString16 (nat v))"

definition hexValue :: "char \<Rightarrow> nat option" where
  "hexValue c =
     (case map_of (zip ''0123456789abcdef'' [0, 1, 2, 3, 4, 5, 6, 7, 8, 9, 10, 11, 12, 13, 14, 15]) c of
        Some d \<Rightarrow> Some d
      | None \<Rightarrow> map_of (zip ''ABCDEF'' [10, 11, 12, 13, 14, 15]) c)"

fun parseHexDigits :: "nat \<Rightarrow> string \<Rightarrow> nat option" where
  "parseHexDigits acc [] = Some acc"
| "parseHexDigits acc (c # cs) =
     (case hexValue c of None \<Rightarrow> None | Some d \<Rightarrow> parseHexDigits (16 * acc + d) cs)"

text \<open>\<open>BigInt(str)\<close> on a hexadecimal literal \<open>0x...\<close>, the only form the service
  passes: at least one digit must follow the prefix, else a SyntaxError.\<close>

definition BigInt :: "string \<Rightarrow> nat option" where
  "BigInt str =
     (case str of
        a # b # ds \<Rightarrow>
          if a = CHR ''0'' \<and> b = CHR ''x'' \<and> ds \<noteq> [] then parseHexDigits 0 ds else None
      | _ \<Rightarrow> None)"

section \<open>Vaults, chains and key-ring strategies\<close>

record vault =
  vid :: string
  insensitive :: "string \<rightharpoonup> plain"
  sensitive :: bytes

text \<open>\<open>ChainInfo\<close>: only \<open>bip44.coinType\<close> and the coin types of \<open>alternativeBIP44s\<close>
  (an optional array) are read by the key ring.\<close>

record chain_info =
  bip44_coinType :: int
  alternativeBIP44s :: "int list option"

datatype digest_method = Sha256 | Keccak256

text \<open>What a strategy's \<open>sign\<close> resolves to; \<open>formatEthSignature\<close> reads its
  \<open>r\<close>, \<open>s\<close> and \<open>v\<close>, the last of which may be \<open>null\<close>.\<close>

record signature =
  sig_r :: bytes
  sig_s :: bytes
  sig_v :: "int option"

text \<open>The \<open>KeyRing\<close> interface: one strategy per key-ring type.\<close>

record keyRing =
  supportedKeyRingType :: string
  kr_getPubKey :: "vault \<Rightarrow> plain \<Rightarrow> chain_info \<Rightarrow> error + bytes promise"
  kr_sign :: "vault \<Rightarrow> plain \<Rightarrow> bytes \<Rightarrow> digest_method \<Rightarrow> chain_info
                \<Rightarrow> error + signature promise"

text \<open>The collaborators handed to the constructor of \<open>KeyRingService\<close>:
  \<open>chainsService.getChainInfoOrThrow\<close> (a lookup that throws on an unknown chain),
  \<open>ChainIdHelper.parse(chainId).identifier\<close>, and the registered strategies.\<close>

record env =
  getChainInfo :: "string \<rightharpoonup> chain_info"
  chainIdentifier :: "string \<Rightarrow> string"
  keyRings :: "keyRing list"

text \<open>The mutable state: the vault service's entries of kind \<open>keyRing\<close>, its lock
  flag and password, the service's \<open>_selectedVaultId\<close>, and the events handed to
  \<open>interactionService.dispatchEvent\<close>.\<close>

record state =
  vaults :: "vault list"
  isLocked :: bool
  userPassword :: string
  selected :: "string option"
  dispatched :: "string list"

section \<open>The vault service\<close>

text \<open>Modelled from the spec: the class \<open>VaultService\<close> (\<open>../vault\<close>) is not among the
  sources. The spec's Secret Store offers \<open>getVaults(kind) -> list\<close>,
  \<open>getVault(kind,id) -> entry|absent\<close>, \<open>removeVault(kind,id)\<close>,
  \<open>mergeInsensitive(kind,id,patch)\<close> and \<open>checkPassword(password)\<close>. The kind is
  \<open>keyRing\<close> in every call of the service and is left out.\<close>

definition getVaults :: "state \<Rightarrow> vault list" where
  "getVaults s = vaults s"

definition getVault :: "string \<Rightarrow> state \<Rightarrow> vault option" where
  "getVault i s = find (\<lambda>v. vid v = i) (vaults s)"

definition removeVault :: "string \<Rightarrow> state \<Rightarrow> state" where
  "removeVault i s = s\<lparr>vaults := filter (\<lambda>v. vid v \<noteq> i) (vaults s)\<rparr>"

definition setAndMergeInsensitiveToVault ::
  "string \<Rightarrow> (string \<rightharpoonup> plain) \<Rightarrow> state \<Rightarrow> state" where
  "setAndMergeInsensitiveToVault i patch s =
     s\<lparr>vaults := map (\<lambda>v. if vid v = i then v\<lparr>insensitive := insensitive v ++ patch\<rparr> else v)
                      (vaults s)\<rparr>"

definition checkUserPassword :: "string \<Rightarrow> state \<Rightarrow> bool" where
  "checkUserPassword password s = (password = userPassword s)"

definition dispatchEvent :: "string \<Rightarrow> state \<Rightarrow> state" where
  "dispatchEvent ev s = s\<lparr>dispatched := dispatched s @ [ev]\<rparr>"

section \<open>The key-ring service\<close>

record keyInfo =
  ki_id :: string
  ki_name :: "plain option"
  ki_type :: "plain option"
  ki_isSelected :: bool
  ki_insensitive :: "string \<rightharpoonup> plain"

definition getKeyInfos :: "state \<Rightarrow> keyInfo list" where
  "getKeyInfos s =
     map (\<lambda>v. \<lparr>ki_id = vid v,
               ki_name = insensitive v ''keyRingName'',
               ki_type = insensitive v ''keyRingType'',
               ki_isSelected = (selected s = Some (vid v)),
               ki_insensitive = insensitive v\<rparr>)
         (getVaults s)"

text \<open>The getter \<open>selectedVaultId\<close>: the stored id when it is a non-empty string naming
  an existing vault, else the id of the first vault, else an error.\<close>

definition selectedVaultId :: "state \<Rightarrow> error + string" where
  "selectedVaultId s =
     (if (case selected s of None \<Rightarrow> False | Some i \<Rightarrow> i \<noteq> [] \<and> getVault i s \<noteq> None)
      then Inr (the (selected s))
      else (case getVaults s of [] \<Rightarrow> Inl EmptyKeyRing | v # _ \<Rightarrow> Inr (vid v)))"

definition selectKeyRing :: "string \<Rightarrow> state \<Rightarrow> (error + unit) \<times> state" where
  "selectKeyRing vaultId s =
     (if isLocked s then (Inl Locked, s)
      else if getVault vaultId s = None then (Inl UnknownVault, s)
      else (Inr (), dispatchEvent ''keystore-changed'' (s\<lparr>selected := Some vaultId\<rparr>)))"

definition coinTypeTag :: "env \<Rightarrow> string \<Rightarrow> string" where
  "coinTypeTag e chainId = ''keyRing-'' @ chainIdentifier e chainId @ ''-coinType''"

definition coinTypeAssociated :: "chain_info \<Rightarrow> int \<Rightarrow> bool" where
  "coinTypeAssociated chainInfo coinType =
     (\<not> (bip44_coinType chainInfo \<noteq> coinType
         \<and> find (\<lambda>c. c = coinType)
              (case alternativeBIP44s chainInfo of None \<Rightarrow> [] | Some ps \<Rightarrow> ps) = None))"

definition finalizeMnemonicKeyCoinType ::
  "env \<Rightarrow> string \<Rightarrow> string \<Rightarrow> int \<Rightarrow> state \<Rightarrow> (error + unit) \<times> state" where
  "finalizeMnemonicKeyCoinType e vaultId chainId coinType s =
     (if isLocked s then (Inl Locked, s)
      else case getChainInfo e chainId of
        None \<Rightarrow> (Inl UnknownChain, s)
      | Some chainInfo \<Rightarrow>
          if \<not> coinTypeAssociated chainInfo coinType then (Inl UnsupportedCoinType, s)
          else (case getVault vaultId s of
            None \<Rightarrow> (Inl VaultIsNull, s)
          | Some vault \<Rightarrow>
              if insensitive vault ''keyRingType'' \<noteq> Some (PStr ''mnemonic'')
              then (Inl NotMnemonic, s)
              else if truthy (insensitive vault (coinTypeTag e chainId))
              then (Inl AlreadyFinalized, s)
              else (Inr (),
                    setAndMergeInsensitiveToVault vaultId
                      [coinTypeTag e chainId \<mapsto> PNum coinType] s)))"

definition needMnemonicKeyCoinTypeFinalize ::
  "env \<Rightarrow> string \<Rightarrow> string \<Rightarrow> state \<Rightarrow> error + bool" where
  "needMnemonicKeyCoinTypeFinalize e vaultId chainId s =
     (if isLocked s then Inl Locked
      else case getVault vaultId s of
        None \<Rightarrow> Inl VaultIsNull
      | Some vault \<Rightarrow>
          if insensitive vault ''keyRingType'' \<noteq> Some (PStr ''mnemonic'') then Inr False
          else Inr (\<not> truthy (insensitive vault (coinTypeTag e chainId))))"

definition appendLedgerKeyRing ::
  "string \<Rightarrow> bytes \<Rightarrow> string \<Rightarrow> state \<Rightarrow> (error + unit) \<times> state" where
  "appendLedgerKeyRing i pubKey app s =
     (case getVault i s of
        None \<Rightarrow> (Inl VaultIsNull, s)
      | Some vault \<Rightarrow>
          if insensitive vault ''keyRingType'' \<noteq> Some (PStr ''ledger'') then (Inl NotLedger, s)
          else if truthy (insensitive vault app) then (Inl AppAlreadyAppended, s)
          else (Inr (),
                setAndMergeInsensitiveToVault i
                  [app \<mapsto> PObj [(''pubKey'', PStr (toHex pubKey))]] s))"

definition changeKeyRingName :: "string \<Rightarrow> string \<Rightarrow> state \<Rightarrow> (error + unit) \<times> state" where
  "changeKeyRingName vaultId name s =
     (if isLocked s then (Inl Locked, s)
      else case getVault vaultId s of
        None \<Rightarrow> (Inl VaultIsNull, s)
      | Some vault \<Rightarrow>
          (Inr (), setAndMergeInsensitiveToVault vaultId [''keyRingName'' \<mapsto> PStr name] s))"

definition deleteKeyRing :: "string \<Rightarrow> string \<Rightarrow> state \<Rightarrow> (error + bool) \<times> state" where
  "deleteKeyRing vaultId password s =
     (if isLocked s then (Inl Locked, s)
      else case getVault vaultId s of
        None \<Rightarrow> (Inl VaultIsNull, s)
      | Some vault \<Rightarrow>
          if \<not> checkUserPassword password s then (Inl PasswordMismatch, s)
          else (case selectedVaultId s of
            Inl err \<Rightarrow> (Inl err, s)
          | Inr cur \<Rightarrow>
              let wasSelected = (cur = vaultId);
                  s1 = removeVault vaultId s;
                  s2 = (if wasSelected
                        then (case getKeyInfos s1 of
                                [] \<Rightarrow> s1\<lparr>selected := None\<rparr>
                              | k # _ \<Rightarrow> s1\<lparr>selected := Some (ki_id k)\<rparr>)
                        else s1);
                  s3 = (if wasSelected then dispatchEvent ''keystore-changed'' s2 else s2)
              in (Inr wasSelected, s3)))"

text \<open>\<open>getVaultKeyRing\<close>: the first registered strategy whose type equals the vault's
  \<open>keyRingType\<close>.\<close>

definition getVaultKeyRing :: "env \<Rightarrow> vault \<Rightarrow> error + keyRing" where
  "getVaultKeyRing e vault =
     (case find (\<lambda>k. insensitive vault ''keyRingType'' = Some (PStr (supportedKeyRingType k)))
             (keyRings e) of
        None \<Rightarrow> Inl UnsupportedKeyRing
      | Some k \<Rightarrow> Inr k)"

definition getPubKeyWithVault ::
  "env \<Rightarrow> vault \<Rightarrow> plain \<Rightarrow> chain_info \<Rightarrow> state \<Rightarrow> error + bytes promise" where
  "getPubKeyWithVault e vault coinType chainInfo s =
     (if isLocked s then Inl Locked
      else case getVaultKeyRing e vault of
        Inl err \<Rightarrow> Inl err
      | Inr k \<Rightarrow> kr_getPubKey k vault coinType chainInfo)"

definition signWithVault ::
  "env \<Rightarrow> vault \<Rightarrow> plain \<Rightarrow> bytes \<Rightarrow> digest_method \<Rightarrow> chain_info \<Rightarrow> state
     \<Rightarrow> error + signature promise" where
  "signWithVault e vault coinType data digestMethod chainInfo s =
     (if isLocked s then Inl Locked
      else case getVaultKeyRing e vault of
        Inl err \<Rightarrow> Inl err
      | Inr k \<Rightarrow> kr_sign k vault coinType data digestMethod chainInfo)"

text \<open>The coin type used by \<open>getPubKey\<close> and \<open>sign\<close>: the vault's tag for the chain
  when it is truthy, else the chain's default.\<close>

definition effectiveCoinType :: "env \<Rightarrow> vault \<Rightarrow> string \<Rightarrow> chain_info \<Rightarrow> plain" where
  "effectiveCoinType e vault chainId chainInfo =
     (if truthy (insensitive vault (coinTypeTag e chainId))
      then the (insensitive vault (coinTypeTag e chainId))
      else PNum (bip44_coinType chainInfo))"

definition getPubKey :: "env \<Rightarrow> string \<Rightarrow> string \<Rightarrow> state \<Rightarrow> error + bytes promise" where
  "getPubKey e chainId vaultId s =
     (if isLocked s then Inl Locked
      else case getChainInfo e chainId of
        None \<Rightarrow> Inl UnknownChain
      | Some chainInfo \<Rightarrow>
          (case getVault vaultId s of
             None \<Rightarrow> Inl VaultIsNull
           | Some vault \<Rightarrow>
               getPubKeyWithVault e vault (effectiveCoinType e vault chainId chainInfo)
                 chainInfo s))"

text \<open>\<open>sign\<close>: a synchronous throw leaves the state alone; once \<open>signWithVault\<close> has
  returned its promise, the object \<open>{coinTypeTag: coinType}\<close>, whose key is the
  literal property name \<open>coinTypeTag\<close>, is merged into the vault, and the promise
  is returned.\<close>

definition sign ::
  "env \<Rightarrow> string \<Rightarrow> string \<Rightarrow> bytes \<Rightarrow> digest_method \<Rightarrow> state
     \<Rightarrow> (error + signature promise) \<times> state" where
  "sign e chainId vaultId data digestMethod s =
     (if isLocked s then (Inl Locked, s)
      else case getChainInfo e chainId of
        None \<Rightarrow> (Inl UnknownChain, s)
      | Some chainInfo \<Rightarrow>
          (case getVault vaultId s of
             None \<Rightarrow> (Inl VaultIsNull, s)
           | Some vault \<Rightarrow>
               let coinType = effectiveCoinType e vault chainId chainInfo in
               (case signWithVault e vault coinType data digestMethod chainInfo s of
                  Inl err \<Rightarrow> (Inl err, s)
                | Inr signature \<Rightarrow>
                    (Inr signature,
                     setAndMergeInsensitiveToVault (vid vault)
                       [''coinTypeTag'' \<mapsto> coinType] s))))"

subsection \<open>Validation of a BIP44 path\<close>

text \<open>A JavaScript number is a finite value (a rational here) or one of \<open>NaN\<close>,
  \<open>Infinity\<close>, \<open>-Infinity\<close>; \<open>Number.isInteger\<close> is false on the latter three.\<close>

datatype number = Fin rat | NonFinite

fun isInteger :: "number \<Rightarrow> bool" where
  "isInteger (Fin q) = (of_int \<lfloor>q\<rfloor> = q)"
| "isInteger NonFinite = False"

fun lessZero :: "number \<Rightarrow> bool" where
  "lessZero (Fin q) = (q < 0)"
| "lessZero NonFinite = False"

record BIP44HDPath =
  account :: number
  change :: number
  addressIndex :: number

definition validateBIP44Path :: "BIP44HDPath \<Rightarrow> error + unit" where
  "validateBIP44Path bip44Path =
     (if \<not> isInteger (account bip44Path) \<or> lessZero (account bip44Path)
      then Inl (InvalidInput Account)
      else if \<not> isInteger (change bip44Path)
              \<or> \<not> (change bip44Path = Fin 0 \<or> change bip44Path = Fin 1)
      then Inl (InvalidInput Change)
      else if \<not> isInteger (addressIndex bip44Path) \<or> lessZero (addressIndex bip44Path)
      then Inl (InvalidInput AddressIndex)
      else Inr ())"

section \<open>The Starknet service\<close>

subsection \<open>The 256-bit integer of the Starknet library\<close>

text \<open>Modelled from the spec: the class \<open>CairoUint256\<close> belongs to the \<open>starknet\<close>
  library and is not among the sources. The spec says that r and s "are each
  reinterpreted as a 256-bit unsigned integer and split into exactly two hexadecimal limbs
  (low 128 bits, high 128 bits)". The constructor reads the literal with \<open>BigInt\<close>,
  refuses a value above \<open>2^256 - 1\<close>, and keeps \<open>low = n & UINT_128_MAX\<close> and
  \<open>high = n >> 128\<close>; \<open>toUint256HexString\<close> prints each limb with \<open>toString(16)\<close>
  behind the prefix \<open>0x\<close>.\<close>

definition UINT_128_MAX :: nat where
  "UINT_128_MAX = 2 ^ 128 - 1"

definition UINT_256_MAX :: nat where
  "UINT_256_MAX = 2 ^ 256 - 1"

record uint256 =
  low :: nat
  high :: nat

definition CairoUint256 :: "string \<Rightarrow> error + uint256" where
  "CairoUint256 str =
     (case BigInt str of
        None \<Rightarrow> Inl (External ''SyntaxError'')
      | Some n \<Rightarrow>
          if n > UINT_256_MAX then Inl (External ''bigNumberish is bigger than UINT_256_MAX'')
          else Inr \<lparr>low = n AND UINT_128_MAX, high = drop_bit 128 n\<rparr>)"

record uint256Hex =
  lowHex :: string
  highHex :: string

definition toUint256HexString :: "uint256 \<Rightarrow> uint256Hex" where
  "toUint256HexString u =
     \<lparr>lowHex = ''0x'' @ toString16 (low u), highHex = ''0x'' @ toString16 (high u)\<rparr>"

subsection \<open>Re-encoding a signature\<close>

definition formatEthSignature :: "signature \<Rightarrow> error + string list" where
  "formatEthSignature sg =
     (case sig_v sg of
        None \<Rightarrow> Inl InvalidSignature
      | Some v \<Rightarrow>
          (case CairoUint256 (''0x'' @ toHex (sig_r sg)) of
             Inl err \<Rightarrow> Inl err
           | Inr ru \<Rightarrow>
               (case CairoUint256 (''0x'' @ toHex (sig_s sg)) of
                  Inl err \<Rightarrow> Inl err
                | Inr su \<Rightarrow>
                    let r = toUint256HexString ru; s = toUint256HexString su
                    in Inr [lowHex r, highHex r, lowHex s, highHex s,
                            ''0x'' @ numberToString16 v])))"

text \<open>What the spec calls reading the bytes as a big-endian unsigned integer.\<close>

definition bigEndian :: "bytes \<Rightarrow> nat" where
  "bigEndian bs = foldl (\<lambda>acc b. 256 * acc + unat b) 0 bs"

subsection \<open>Versions and data-availability modes\<close>

definition ETransactionVersion2 :: "string list" where
  "ETransactionVersion2 =
     [''0x0'', ''0x1'', ''0x2'',
      ''0x100000000000000000000000000000000'',
      ''0x100000000000000000000000000000001'',
      ''0x100000000000000000000000000000002'']"

definition ETransactionVersion3 :: "string list" where
  "ETransactionVersion3 = [''0x3'', ''0x100000000000000000000000000000003'']"

definition intDAM :: "plain \<Rightarrow> error + int" where
  "intDAM dam =
     (if dam = PStr ''L1'' then Inr 0
      else if dam = PStr ''L2'' then Inr 1
      else Inl EDAMConversion)"

text \<open>Reading a property, and the object literal \<open>{...det, k1: v1, ...}\<close>: the
  properties written after the spread override those of \<open>det\<close>.\<close>

fun getProp :: "plain \<Rightarrow> string \<Rightarrow> plain" where
  "getProp (PObj kvs) k = (case map_of kvs k of None \<Rightarrow> PUndefined | Some v \<Rightarrow> v)"
| "getProp other k = PUndefined"

fun spread :: "plain \<Rightarrow> (string \<times> plain) list \<Rightarrow> plain" where
  "spread (PObj kvs) extra = PObj (extra @ kvs)"
| "spread other extra = PObj extra"

text \<open>\<open>Object.values(E).includes(details.version)\<close>.\<close>

definition versionIn :: "string list \<Rightarrow> plain \<Rightarrow> bool" where
  "versionIn versions details = (getProp details ''version'' \<in> set (map PStr versions))"

text \<open>\<open>msgHash.replace("0x", "")\<close> drops the first occurrence of \<open>0x\<close>.\<close>

fun remove0x :: "string \<Rightarrow> string" where
  "remove0x (a # b # cs) =
     (if a = CHR ''0'' \<and> b = CHR ''x'' then cs else a # remove0x (b # cs))"
| "remove0x cs = cs"

subsection \<open>Collaborators\<close>

text \<open>What the service is given or imports: the key-ring service's collaborators,
  \<open>chainsService.getModularChainInfoOrThrow\<close> (here: whether the chain's info has a
  \<open>starknet\<close> section), \<open>pubKey.getStarknetAddress(salt, classHash)\<close>, the hashing
  and calldata functions of the \<open>starknet\<close> library (each may throw), and
  \<open>Buffer.from(hex, "hex")\<close>.\<close>

record starknetEnv =
  keyRingEnv :: env
  getModularChainInfo :: "string \<rightharpoonup> bool"
  getStarknetAddress :: "bytes \<Rightarrow> bytes \<Rightarrow> bytes \<Rightarrow> bytes"
  getMessageHash :: "plain \<Rightarrow> string \<Rightarrow> error + string"
  getExecuteCalldata :: "plain list \<Rightarrow> plain \<Rightarrow> error + plain"
  compile :: "plain \<Rightarrow> error + plain"
  calculateInvokeTransactionHash :: "plain \<Rightarrow> error + string"
  calculateDeployAccountTransactionHash :: "plain \<Rightarrow> error + string"
  calculateDeclareTransactionHash :: "plain \<Rightarrow> error + string"
  bufferFromHex :: "string \<Rightarrow> bytes"

record starknetKey =
  hexAddress :: string
  pubKey :: bytes
  address :: bytes

definition salt :: bytes where
  "salt = [0x11]"

definition classHash :: bytes where
  "classHash =
     [0x02, 0x20, 0x36, 0x73, 0xe7, 0x28, 0xfa, 0x07, 0xde, 0x1c, 0x2e, 0xa6, 0x04, 0x05, 0x39,
      0x9f, 0xfe, 0xfa, 0xf8, 0x75, 0xf1, 0xb7, 0xae, 0x54, 0xe7, 0x47, 0x65, 0x9e, 0x1e, 0x21,
      0x6d, 0x94]"

definition getStarknetKey :: "starknetEnv \<Rightarrow> string \<Rightarrow> string \<Rightarrow> state \<Rightarrow> error + starknetKey" where
  "getStarknetKey e vaultId chainId s =
     (case getModularChainInfo e chainId of
        None \<Rightarrow> Inl UnknownChain
      | Some isStarknet \<Rightarrow>
          if \<not> isStarknet then Inl NotStarknetChain
          else (case getPubKey (keyRingEnv e) chainId vaultId s of
                  Inl err \<Rightarrow> Inl err
                | Inr (Rejected err) \<Rightarrow> Inl err
                | Inr (Resolved pk) \<Rightarrow>
                    let addr = getStarknetAddress e pk salt classHash
                    in Inr \<lparr>hexAddress = ''0x'' @ toHex addr, pubKey = pk, address = addr\<rparr>))"

text \<open>The common tail of the four signing functions: \<open>await keyRingService.sign(...)\<close>
  over the bytes of the hash with \<open>keccak256\<close>, then \<open>formatEthSignature\<close>.\<close>

definition signHash ::
  "starknetEnv \<Rightarrow> string \<Rightarrow> string \<Rightarrow> string \<Rightarrow> state \<Rightarrow> (error + string list) \<times> state" where
  "signHash e chainId vaultId msgHash s =
     (case sign (keyRingEnv e) chainId vaultId (bufferFromHex e (remove0x msgHash)) Keccak256 s of
        (Inl err, s') \<Rightarrow> (Inl err, s')
      | (Inr (Rejected err), s') \<Rightarrow> (Inl err, s')
      | (Inr (Resolved sg), s') \<Rightarrow> (formatEthSignature sg, s'))"

definition signStarknetMessage ::
  "starknetEnv \<Rightarrow> string \<Rightarrow> string \<Rightarrow> string \<Rightarrow> plain \<Rightarrow> state
     \<Rightarrow> (error + string list) \<times> state" where
  "signStarknetMessage e vaultId chainId signer typedData s =
     (case getStarknetKey e vaultId chainId s of
        Inl err \<Rightarrow> (Inl err, s)
      | Inr key \<Rightarrow>
          if hexAddress key \<noteq> signer then (Inl InvalidSigner, s)
          else (case getMessageHash e typedData signer of
                  Inl err \<Rightarrow> (Inl err, s)
                | Inr msgHash \<Rightarrow> signHash e chainId vaultId msgHash s))"

text \<open>The two data-availability modes of a v3 transaction, converted in the order the
  object literal evaluates them.\<close>

definition damFields :: "plain \<Rightarrow> error + (string \<times> plain) list" where
  "damFields det =
     (case intDAM (getProp det ''nonceDataAvailabilityMode'') of
        Inl err \<Rightarrow> Inl err
      | Inr n \<Rightarrow>
          (case intDAM (getProp det ''feeDataAvailabilityMode'') of
             Inl err \<Rightarrow> Inl err
           | Inr f \<Rightarrow>
               Inr [(''nonceDataAvailabilityMode'', PNum n),
                    (''feeDataAvailabilityMode'', PNum f)]))"

text \<open>The argument handed to \<open>calculateInvokeTransactionHash\<close>, or the error thrown
  before the call.\<close>

definition invokeHashArgs :: "plain \<Rightarrow> plain \<Rightarrow> error + plain" where
  "invokeHashArgs details compiledCalldata =
     (if versionIn ETransactionVersion2 details
      then Inr (spread details
                  [(''senderAddress'', getProp details ''walletAddress''),
                   (''compiledCalldata'', compiledCalldata),
                   (''version'', getProp details ''version'')])
      else if versionIn ETransactionVersion3 details
      then (case damFields details of
              Inl err \<Rightarrow> Inl err
            | Inr dams \<Rightarrow>
                Inr (spread details
                       ([(''senderAddress'', getProp details ''walletAddress''),
                         (''compiledCalldata'', compiledCalldata),
                         (''version'', getProp details ''version'')] @ dams)))
      else Inl UnsupportedVersion)"

definition signStarknetTransaction ::
  "starknetEnv \<Rightarrow> string \<Rightarrow> string \<Rightarrow> string \<Rightarrow> plain list \<Rightarrow> plain \<Rightarrow> state
     \<Rightarrow> (error + string list) \<times> state" where
  "signStarknetTransaction e vaultId chainId signer transactions details s =
     (case getStarknetKey e vaultId chainId s of
        Inl err \<Rightarrow> (Inl err, s)
      | Inr key \<Rightarrow>
          if hexAddress key \<noteq> signer then (Inl InvalidSigner, s)
          else (case getExecuteCalldata e transactions (getProp details ''cairoVersion'') of
                  Inl err \<Rightarrow> (Inl err, s)
                | Inr compiledCalldata \<Rightarrow>
                    (case invokeHashArgs details compiledCalldata of
                       Inl err \<Rightarrow> (Inl err, s)
                     | Inr args \<Rightarrow>
                         (case calculateInvokeTransactionHash e args of
                            Inl err \<Rightarrow> (Inl err, s)
                          | Inr msgHash \<Rightarrow> signHash e chainId vaultId msgHash s))))"

definition deployAccountHashArgs :: "plain \<Rightarrow> plain \<Rightarrow> error + plain" where
  "deployAccountHashArgs details compiledConstructorCalldata =
     (if versionIn ETransactionVersion2 details
      then Inr (spread details
                  [(''salt'', getProp details ''addressSalt''),
                   (''constructorCalldata'', compiledConstructorCalldata),
                   (''version'', getProp details ''version'')])
      else if versionIn ETransactionVersion3 details
      then (case damFields details of
              Inl err \<Rightarrow> Inl err
            | Inr dams \<Rightarrow>
                Inr (spread details
                       ([(''salt'', getProp details ''addressSalt''),
                         (''compiledConstructorCalldata'', compiledConstructorCalldata),
                         (''version'', getProp details ''version'')] @ dams)))
      else Inl UnsupportedVersion)"

definition signStarknetDeployAccountTransaction ::
  "starknetEnv \<Rightarrow> string \<Rightarrow> string \<Rightarrow> string \<Rightarrow> plain \<Rightarrow> state
     \<Rightarrow> (error + string list) \<times> state" where
  "signStarknetDeployAccountTransaction e vaultId chainId signer details s =
     (case getStarknetKey e vaultId chainId s of
        Inl err \<Rightarrow> (Inl err, s)
      | Inr key \<Rightarrow>
          if hexAddress key \<noteq> signer then (Inl InvalidSigner, s)
          else (case compile e (getProp details ''constructorCalldata'') of
                  Inl err \<Rightarrow> (Inl err, s)
                | Inr compiledConstructorCalldata \<Rightarrow>
                    (case deployAccountHashArgs details compiledConstructorCalldata of
                       Inl err \<Rightarrow> (Inl err, s)
                     | Inr args \<Rightarrow>
                         (case calculateDeployAccountTransactionHash e args of
                            Inl err \<Rightarrow> (Inl err, s)
                          | Inr msgHash \<Rightarrow> signHash e chainId vaultId msgHash s))))"

definition declareHashArgs :: "plain \<Rightarrow> error + plain" where
  "declareHashArgs details =
     (if versionIn ETransactionVersion2 details
      then Inr (spread details [(''version'', getProp details ''version'')])
      else if versionIn ETransactionVersion3 details
      then (case damFields details of
              Inl err \<Rightarrow> Inl err
            | Inr dams \<Rightarrow>
                Inr (spread details ([(''version'', getProp details ''version'')] @ dams)))
      else Inl UnsupportedVersion)"

definition signStarknetDeclareTransactionn ::
  "starknetEnv \<Rightarrow> string \<Rightarrow> string \<Rightarrow> string \<Rightarrow> plain \<Rightarrow> state
     \<Rightarrow> (error + string list) \<times> state" where
  "signStarknetDeclareTransactionn e vaultId chainId signer details s =
     (case getStarknetKey e vaultId chainId s of
        Inl err \<Rightarrow> (Inl err, s)
      | Inr key \<Rightarrow>
          if hexAddress key \<noteq> signer then (Inl InvalidSigner, s)
          else (case declareHashArgs details of
                  Inl err \<Rightarrow> (Inl err, s)
                | Inr args \<Rightarrow>
                    (case calculateDeclareTransactionHash e args of
                       Inl err \<Rightarrow> (Inl err, s)
                     | Inr msgHash \<Rightarrow> signHash e chainId vaultId msgHash s)))"

section \<open>Sequences of operations\<close>

text \<open>The mutating operations of the key-ring service other than vault creation, and
  the state each one leaves behind (the old state when it throws).\<close>

datatype operation =
    FinalizeCoinType string string int
  | AppendLedger string bytes string
  | ChangeName string string
  | Sign string string bytes digest_method
  | Delete string string

fun run :: "env \<Rightarrow> operation \<Rightarrow> state \<Rightarrow> state" where
  "run e (FinalizeCoinType vaultId chainId coinType) s =
     snd (finalizeMnemonicKeyCoinType e vaultId chainId coinType s)"
| "run e (AppendLedger i pk app) s = snd (appendLedgerKeyRing i pk app s)"
| "run e (ChangeName vaultId name) s = snd (changeKeyRingName vaultId name s)"
| "run e (Sign chainId vaultId data digestMethod) s =
     snd (sign e chainId vaultId data digestMethod s)"
| "run e (Delete vaultId password) s = snd (deleteKeyRing vaultId password s)"

fun deletes :: "string \<Rightarrow> operation \<Rightarrow> bool" where
  "deletes w (Delete vaultId password) = (vaultId = w)"
| "deletes w other = False"

definition keyRingTypeOf :: "string \<Rightarrow> state \<Rightarrow> plain option option" where
  "keyRingTypeOf w s = map_option (\<lambda>v. insensitive v ''keyRingType'') (getVault w s)"

text \<open>The tag of a chain on a vault, as \<open>vault.insensitive[coinTypeTag]\<close> reads it.\<close>

definition coinTypeTagOf :: "env \<Rightarrow> string \<Rightarrow> string \<Rightarrow> state \<Rightarrow> plain option" where
  "coinTypeTagOf e w chainId s =
     (case getVault w s of None \<Rightarrow> None | Some v \<Rightarrow> insensitive v (coinTypeTag e chainId))"

section \<open>Example inputs\<close>

text \<open>A key ring of two vaults, a mnemonic one (selected) and a Ledger one; three
  chains, one of which has the default coin type 0; one strategy, for mnemonic vaults,
  that always answers with the same key and the same signature.\<close>

definition exampleVaultA :: vault where
  "exampleVaultA =
     \<lparr>vid = ''a'',
      insensitive = [''keyRingName'' \<mapsto> PStr ''first'', ''keyRingType'' \<mapsto> PStr ''mnemonic''],
      sensitive = []\<rparr>"

definition exampleVaultB :: vault where
  "exampleVaultB =
     \<lparr>vid = ''b'',
      insensitive = [''keyRingName'' \<mapsto> PStr ''second'', ''keyRingType'' \<mapsto> PStr ''ledger''],
      sensitive = []\<rparr>"

definition exampleSignature :: signature where
  "exampleSignature =
     \<lparr>sig_r = replicate 31 0 @ [1], sig_s = replicate 31 0 @ [2], sig_v = Some 1\<rparr>"

definition exampleKeyRing :: keyRing where
  "exampleKeyRing =
     \<lparr>supportedKeyRingType = ''mnemonic'',
      kr_getPubKey = (\<lambda>vault coinType chainInfo. Inr (Resolved [0x02, 0x01])),
      kr_sign = (\<lambda>vault coinType data digestMethod chainInfo. Inr (Resolved exampleSignature))\<rparr>"

definition exampleEnv :: env where
  "exampleEnv =
     \<lparr>getChainInfo =
        [''cosmoshub-4'' \<mapsto> \<lparr>bip44_coinType = 118, alternativeBIP44s = Some [60]\<rparr>,
         ''zero-1'' \<mapsto> \<lparr>bip44_coinType = 0, alternativeBIP44s = Some [1]\<rparr>,
         ''SN_MAIN'' \<mapsto> \<lparr>bip44_coinType = 9004, alternativeBIP44s = None\<rparr>],
      chainIdentifier = takeWhile (\<lambda>c. c \<noteq> CHR ''-''),
      keyRings = [exampleKeyRing]\<rparr>"

definition exampleState :: state where
  "exampleState =
     \<lparr>vaults = [exampleVaultA, exampleVaultB], isLocked = False, userPassword = ''pw'',
      selected = Some ''a'', dispatched = []\<rparr>"

definition exampleStarknetEnv :: starknetEnv where
  "exampleStarknetEnv =
     \<lparr>keyRingEnv = exampleEnv,
      getModularChainInfo = [''SN_MAIN'' \<mapsto> True, ''cosmoshub-4'' \<mapsto> False],
      getStarknetAddress = (\<lambda>pk salt classHash. pk),
      getMessageHash = (\<lambda>typedData signer. Inr ''0x01''),
      getExecuteCalldata = (\<lambda>transactions cairoVersion. Inr (PArr transactions)),
      compile = (\<lambda>calldata. Inr calldata),
      calculateInvokeTransactionHash = (\<lambda>args. Inr ''0x02''),
      calculateDeployAccountTransactionHash = (\<lambda>args. Inr ''0x03''),
      calculateDeclareTransactionHash = (\<lambda>args. Inr ''0x04''),
      bufferFromHex = (\<lambda>hex. [])\<rparr>"

section \<open>Properties\<close>

lemmas example_defs =
  exampleVaultA_def exampleVaultB_def exampleSignature_def exampleKeyRing_def exampleEnv_def
  exampleState_def exampleStarknetEnv_def

subsection \<open>Lookups in the vault service\<close>

lemma find_map_vid:
  assumes "\<And>v. vid (f v) = vid v"
  shows "find (\<lambda>v. vid v = i) (map f vs) = map_option f (find (\<lambda>v. vid v = i) vs)"
  using assms by (induction vs) auto

lemma getVault_setAndMerge:
  "getVault i (setAndMergeInsensitiveToVault j patch s) =
     map_option (\<lambda>v. if vid v = j then v\<lparr>insensitive := insensitive v ++ patch\<rparr> else v)
       (getVault i s)"
  by (simp add: getVault_def setAndMergeInsensitiveToVault_def find_map_vid)

lemma getVault_removeVault:
  "getVault i (removeVault j s) = (if i = j then None else getVault i s)"
proof -
  have "find (\<lambda>v. vid v = i) (filter (\<lambda>v. vid v \<noteq> j) vs)
          = (if i = j then None else find (\<lambda>v. vid v = i) vs)" for vs
    by (induction vs) auto
  from this [of "vaults s"] show ?thesis by (simp add: getVault_def removeVault_def)
qed

lemma getVault_Some_vid: "getVault i s = Some v \<Longrightarrow> vid v = i"
  by (auto simp: getVault_def find_Some_iff)

lemma isLocked_setAndMerge [simp]:
  "isLocked (setAndMergeInsensitiveToVault j patch s) = isLocked s"
  by (simp add: setAndMergeInsensitiveToVault_def)

lemma selectedVaultId_nonempty:
  "vaults s \<noteq> [] \<Longrightarrow> \<exists>i. selectedVaultId s = Inr i"
  by (auto simp: selectedVaultId_def getVaults_def split: list.splits)

lemma selectedVaultId_exists:
  "selectedVaultId s = Inr i \<Longrightarrow> getVault i s \<noteq> None"
  by (auto simp: selectedVaultId_def getVaults_def getVault_def
           split: if_splits option.splits list.splits)

text \<open>The tag of a chain is neither the type field nor the literal key that \<open>sign\<close>
  writes.\<close>

lemma coinTypeTag_neq_keyRingType: "coinTypeTag e c \<noteq> ''keyRingType''"
  by (simp add: coinTypeTag_def)

lemma coinTypeTag_neq_literal: "coinTypeTag e c \<noteq> ''coinTypeTag''"
  by (simp add: coinTypeTag_def)

lemma coinTypeAssociated_iff:
  "coinTypeAssociated ci c \<longleftrightarrow>
     c = bip44_coinType ci \<or> c \<in> set (case alternativeBIP44s ci of None \<Rightarrow> [] | Some ps \<Rightarrow> ps)"
  by (auto simp: coinTypeAssociated_def find_None_iff)

subsection \<open>The example inputs, evaluated\<close>

lemma example_tag: "coinTypeTag exampleEnv ''cosmoshub-4'' = ''keyRing-cosmoshub-coinType''"
  by (simp add: coinTypeTag_def exampleEnv_def)

lemma example_getVault_a: "getVault ''a'' exampleState = Some exampleVaultA"
  by (simp add: getVault_def example_defs)

lemma example_getVault_b: "getVault ''b'' exampleState = Some exampleVaultB"
  by (simp add: getVault_def example_defs)

lemma example_unlocked: "\<not> isLocked exampleState"
  by (simp add: exampleState_def)

lemma example_chain:
  "getChainInfo exampleEnv ''cosmoshub-4''
     = Some \<lparr>bip44_coinType = 118, alternativeBIP44s = Some [60]\<rparr>"
  by (simp add: exampleEnv_def)

lemma example_password: "checkUserPassword ''pw'' exampleState"
  by (simp add: checkUserPassword_def exampleState_def)

lemma example_selected: "selectedVaultId exampleState = Inr ''a''"
proof -
  have "selected exampleState = Some ''a''" by (simp add: exampleState_def)
  then show ?thesis by (simp add: selectedVaultId_def example_getVault_a)
qed

lemma example_finalize:
  "finalizeMnemonicKeyCoinType exampleEnv ''a'' ''cosmoshub-4'' 118 exampleState
     = (Inr (), snd (finalizeMnemonicKeyCoinType exampleEnv ''a'' ''cosmoshub-4'' 118 exampleState))"
proof -
  have "fst (finalizeMnemonicKeyCoinType exampleEnv ''a'' ''cosmoshub-4'' 118 exampleState)
          = Inr ()"
    by (simp add: finalizeMnemonicKeyCoinType_def coinTypeAssociated_def example_tag
          example_getVault_a example_unlocked example_chain exampleVaultA_def)
  then show ?thesis by (metis prod.collapse)
qed

lemma example_sign:
  "sign exampleEnv ''cosmoshub-4'' ''a'' [] Keccak256 exampleState
     = (Inr (Resolved exampleSignature),
        snd (sign exampleEnv ''cosmoshub-4'' ''a'' [] Keccak256 exampleState))"
proof -
  have "fst (sign exampleEnv ''cosmoshub-4'' ''a'' [] Keccak256 exampleState)
          = Inr (Resolved exampleSignature)"
    by (simp add: sign_def signWithVault_def getVaultKeyRing_def Let_def example_unlocked
          example_chain example_getVault_a)
       (simp add: exampleEnv_def exampleKeyRing_def exampleVaultA_def)
  then show ?thesis by (metis prod.collapse)
qed

lemma example_key:
  "getStarknetKey exampleStarknetEnv ''a'' ''SN_MAIN'' exampleState
     = Inr \<lparr>hexAddress = ''0x0201'', pubKey = [0x02, 0x01], address = [0x02, 0x01]\<rparr>"
  by (simp add: getStarknetKey_def getPubKey_def getPubKeyWithVault_def getVaultKeyRing_def
        getVault_def effectiveCoinType_def coinTypeTag_def toHex_def hexDigit_def Let_def
        example_defs)

subsection \<open>Signing leaves the tags of the chains alone\<close>

lemma sign_state:
  "snd (sign e chainId vaultId data dm s) = s
   \<or> (\<exists>ct. snd (sign e chainId vaultId data dm s)
            = setAndMergeInsensitiveToVault vaultId [''coinTypeTag'' \<mapsto> ct] s)"
  by (auto simp: sign_def Let_def getVault_Some_vid split: option.splits sum.splits)

text \<open>
  C2. After a successful call of \<open>sign\<close>, every vault that existed still exists and its
  tag \<open>keyRing-<chain>-coinType\<close> is what it was, for every chain: the call writes the
  property named \<open>coinTypeTag\<close> and nothing else.
\<close>

theorem sign_preserves_coinTypeTag:
  assumes "sign e chainId vaultId data dm s = (Inr (Resolved sg), s')"
    and "getVault w s = Some v"
  shows "\<exists>v'. getVault w s' = Some v'
            \<and> insensitive v' (coinTypeTag e c) = insensitive v (coinTypeTag e c)"
proof -
  have "s' = snd (sign e chainId vaultId data dm s)" using assms(1) by simp
  with sign_state [of e chainId vaultId data dm s] assms(2)
  show ?thesis
    using coinTypeTag_neq_literal [of e c]
    by (auto simp: getVault_setAndMerge map_add_def)
qed

theorem sign_preserves_coinTypeTag_witness:
  "\<exists>v'. getVault ''a'' (snd (sign exampleEnv ''cosmoshub-4'' ''a'' [] Keccak256 exampleState))
            = Some v'
        \<and> insensitive v' (coinTypeTag exampleEnv ''cosmoshub-4'')
            = insensitive exampleVaultA (coinTypeTag exampleEnv ''cosmoshub-4'')"
  using sign_preserves_coinTypeTag [OF example_sign example_getVault_a, of "''cosmoshub-4''"]
  by simp

subsection \<open>The type of a key ring never changes\<close>

lemma keyRingTypeOf_setAndMerge:
  assumes "patch ''keyRingType'' = None"
  shows "keyRingTypeOf w (setAndMergeInsensitiveToVault j patch s) = keyRingTypeOf w s"
  using assms
  by (cases "getVault w s") (simp_all add: keyRingTypeOf_def getVault_setAndMerge map_add_def)

lemma keyRingTypeOf_finalize:
  "keyRingTypeOf w (snd (finalizeMnemonicKeyCoinType e vaultId chainId coinType s))
     = keyRingTypeOf w s"
  using coinTypeTag_neq_keyRingType [of e chainId]
  by (auto simp: finalizeMnemonicKeyCoinType_def keyRingTypeOf_setAndMerge
           split: option.splits)

text \<open>An app named \<open>keyRingType\<close> is refused: the field holds \<open>ledger\<close>, which is
  truthy.\<close>

lemma keyRingTypeOf_appendLedger:
  "keyRingTypeOf w (snd (appendLedgerKeyRing i pk app s)) = keyRingTypeOf w s"
proof (cases "app = ''keyRingType''")
  case True
  then show ?thesis
    by (auto simp: appendLedgerKeyRing_def split: option.splits)
next
  case False
  then show ?thesis
    by (auto simp: appendLedgerKeyRing_def keyRingTypeOf_setAndMerge split: option.splits)
qed

lemma keyRingTypeOf_changeName:
  "keyRingTypeOf w (snd (changeKeyRingName vaultId name s)) = keyRingTypeOf w s"
  by (auto simp: changeKeyRingName_def keyRingTypeOf_setAndMerge split: option.splits)

lemma keyRingTypeOf_sign:
  "keyRingTypeOf w (snd (sign e chainId vaultId data dm s)) = keyRingTypeOf w s"
  using sign_state [of e chainId vaultId data dm s]
  by (auto simp: keyRingTypeOf_setAndMerge)

lemma keyRingTypeOf_delete:
  assumes "vaultId \<noteq> w"
  shows "keyRingTypeOf w (snd (deleteKeyRing vaultId password s)) = keyRingTypeOf w s"
proof -
  have "getVault w (snd (deleteKeyRing vaultId password s)) = getVault w s"
    using assms getVault_removeVault [of w vaultId s]
    by (auto simp: deleteKeyRing_def Let_def dispatchEvent_def getVault_def removeVault_def
             split: option.splits sum.splits list.splits)
  then show ?thesis by (simp add: keyRingTypeOf_def)
qed

lemma keyRingTypeOf_run:
  "\<not> deletes w op \<Longrightarrow> keyRingTypeOf w (run e op s) = keyRingTypeOf w s"
  by (cases op)
     (simp_all add: keyRingTypeOf_finalize keyRingTypeOf_appendLedger keyRingTypeOf_changeName
        keyRingTypeOf_sign keyRingTypeOf_delete)

text \<open>
  C9. Whatever sequence of \<open>finalizeMnemonicKeyCoinType\<close>, \<open>appendLedgerKeyRing\<close>,
  \<open>changeKeyRingName\<close>, \<open>sign\<close> and \<open>deleteKeyRing\<close> of other vaults is run, with
  whatever arguments and whether each call succeeds or throws, a vault that exists still
  exists afterwards and its \<open>keyRingType\<close> is the one it had.
\<close>

theorem keyRingType_immutable:
  assumes "getVault w s = Some v"
    and "list_all (\<lambda>op. \<not> deletes w op) ops"
  shows "\<exists>v'. getVault w (fold (run e) ops s) = Some v'
            \<and> insensitive v' ''keyRingType'' = insensitive v ''keyRingType''"
proof -
  have "keyRingTypeOf w (fold (run e) ops s) = keyRingTypeOf w s"
    using assms(2)
  proof (induction ops arbitrary: s)
    case Nil
    then show ?case by simp
  next
    case (Cons op ops)
    then show ?case by (simp add: keyRingTypeOf_run)
  qed
  with assms(1) show ?thesis by (auto simp: keyRingTypeOf_def)
qed

theorem keyRingType_immutable_witness:
  "\<exists>v'. getVault ''a''
          (fold (run exampleEnv)
             [FinalizeCoinType ''a'' ''cosmoshub-4'' 118,
              AppendLedger ''b'' [0x02, 0xaa] ''keyRingType'',
              AppendLedger ''b'' [0x02, 0xaa] ''Cosmos'',
              ChangeName ''a'' ''renamed'',
              Sign ''cosmoshub-4'' ''a'' [] Keccak256,
              Delete ''b'' ''pw'']
             exampleState) = Some v'
        \<and> insensitive v' ''keyRingType'' = Some (PStr ''mnemonic'')"
proof -
  have ops: "list_all (\<lambda>op. \<not> deletes ''a'' op)
               [FinalizeCoinType ''a'' ''cosmoshub-4'' 118,
                AppendLedger ''b'' [0x02, 0xaa] ''keyRingType'',
                AppendLedger ''b'' [0x02, 0xaa] ''Cosmos'',
                ChangeName ''a'' ''renamed'',
                Sign ''cosmoshub-4'' ''a'' [] Keccak256,
                Delete ''b'' ''pw'']"
    by simp
  have ty: "insensitive exampleVaultA ''keyRingType'' = Some (PStr ''mnemonic'')"
    by (simp add: exampleVaultA_def)
  from keyRingType_immutable [OF example_getVault_a ops, of exampleEnv] ty
  show ?thesis by (simp only:)
qed

subsection \<open>Finalizing a coin type\<close>

lemma finalize_success_iff:
  "finalizeMnemonicKeyCoinType e vaultId chainId coinType s = (Inr (), s1) \<longleftrightarrow>
     \<not> isLocked s
     \<and> (\<exists>ci. getChainInfo e chainId = Some ci \<and> coinTypeAssociated ci coinType)
     \<and> (\<exists>v. getVault vaultId s = Some v
            \<and> insensitive v ''keyRingType'' = Some (PStr ''mnemonic'')
            \<and> \<not> truthy (insensitive v (coinTypeTag e chainId)))
     \<and> s1 = setAndMergeInsensitiveToVault vaultId [coinTypeTag e chainId \<mapsto> PNum coinType] s"
  by (auto simp: finalizeMnemonicKeyCoinType_def split: option.splits if_splits)

subsection \<open>A finalized tag stays\<close>

lemma coinTypeTag_neq_keyRingName: "coinTypeTag e c \<noteq> ''keyRingName''"
  by (simp add: coinTypeTag_def)

lemma coinTypeTagOf_setAndMerge:
  "coinTypeTagOf e w c (setAndMergeInsensitiveToVault j patch s) =
     (if j = w \<and> getVault w s \<noteq> None \<and> patch (coinTypeTag e c) \<noteq> None
      then patch (coinTypeTag e c) else coinTypeTagOf e w c s)"
  by (cases "getVault w s")
     (auto simp: coinTypeTagOf_def getVault_setAndMerge map_add_def getVault_Some_vid
           split: option.splits)

lemma isLocked_run: "isLocked (run e op s) = isLocked s"
proof (cases op)
  case (Delete vaultId password)
  then show ?thesis
    by (auto simp: deleteKeyRing_def Let_def removeVault_def dispatchEvent_def
             split: option.splits sum.splits list.splits)
next
  case (Sign chainId vaultId data dm)
  then show ?thesis
    using sign_state [of e chainId vaultId data dm s] by auto
qed (auto simp: finalizeMnemonicKeyCoinType_def appendLedgerKeyRing_def changeKeyRingName_def
           split: option.splits)

lemma coinTypeTagOf_finalize:
  assumes "truthy (coinTypeTagOf e w c s)"
  shows "coinTypeTagOf e w c (snd (finalizeMnemonicKeyCoinType e vaultId chainId coinType s))
           = coinTypeTagOf e w c s"
proof (cases "vaultId = w \<and> coinTypeTag e chainId = coinTypeTag e c")
  case True
  with assms show ?thesis
    by (auto simp: finalizeMnemonicKeyCoinType_def coinTypeTagOf_def split: option.splits)
next
  case False
  then show ?thesis
    by (auto simp: finalizeMnemonicKeyCoinType_def coinTypeTagOf_setAndMerge
             split: option.splits)
qed

lemma coinTypeTagOf_appendLedger:
  assumes "truthy (coinTypeTagOf e w c s)"
  shows "coinTypeTagOf e w c (snd (appendLedgerKeyRing i pk app s)) = coinTypeTagOf e w c s"
proof (cases "i = w \<and> app = coinTypeTag e c")
  case True
  with assms show ?thesis
    by (auto simp: appendLedgerKeyRing_def coinTypeTagOf_def split: option.splits)
next
  case False
  then show ?thesis
    by (auto simp: appendLedgerKeyRing_def coinTypeTagOf_setAndMerge split: option.splits)
qed

lemma coinTypeTagOf_changeName:
  "coinTypeTagOf e w c (snd (changeKeyRingName vaultId name s)) = coinTypeTagOf e w c s"
  using coinTypeTag_neq_keyRingName [of e c]
  by (auto simp: changeKeyRingName_def coinTypeTagOf_setAndMerge split: option.splits)

lemma coinTypeTagOf_sign:
  "coinTypeTagOf e w c (snd (sign e chainId vaultId data dm s)) = coinTypeTagOf e w c s"
  using sign_state [of e chainId vaultId data dm s] coinTypeTag_neq_literal [of e c]
  by (auto simp: coinTypeTagOf_setAndMerge)

lemma coinTypeTagOf_delete:
  assumes "vaultId \<noteq> w"
  shows "coinTypeTagOf e w c (snd (deleteKeyRing vaultId password s)) = coinTypeTagOf e w c s"
proof -
  have "getVault w (snd (deleteKeyRing vaultId password s)) = getVault w s"
    using assms getVault_removeVault [of w vaultId s]
    by (auto simp: deleteKeyRing_def Let_def dispatchEvent_def getVault_def removeVault_def
             split: option.splits sum.splits list.splits)
  then show ?thesis by (simp add: coinTypeTagOf_def)
qed

lemma coinTypeTagOf_run:
  assumes "truthy (coinTypeTagOf e w c s)" and "\<not> deletes w op"
  shows "coinTypeTagOf e w c (run e op s) = coinTypeTagOf e w c s"
  using assms
  by (cases op)
     (simp_all add: coinTypeTagOf_finalize coinTypeTagOf_appendLedger coinTypeTagOf_changeName
        coinTypeTagOf_sign coinTypeTagOf_delete)

lemma fold_run_invariants:
  assumes "truthy (coinTypeTagOf e w c s)" and "list_all (\<lambda>op. \<not> deletes w op) ops"
  shows "coinTypeTagOf e w c (fold (run e) ops s) = coinTypeTagOf e w c s
       \<and> keyRingTypeOf w (fold (run e) ops s) = keyRingTypeOf w s
       \<and> isLocked (fold (run e) ops s) = isLocked s"
  using assms
proof (induction ops arbitrary: s)
  case Nil
  then show ?case by simp
next
  case (Cons op ops)
  from Cons.prems have nd: "\<not> deletes w op" and rest: "list_all (\<lambda>op. \<not> deletes w op) ops"
    by simp_all
  have step: "coinTypeTagOf e w c (run e op s) = coinTypeTagOf e w c s"
    using Cons.prems(1) nd by (rule coinTypeTagOf_run)
  with Cons.prems(1) have "truthy (coinTypeTagOf e w c (run e op s))" by simp
  from Cons.IH [OF this rest] step show ?case
    by (simp add: keyRingTypeOf_run [OF nd] isLocked_run)
qed

text \<open>
  C1, as the code has it. Once \<open>finalizeMnemonicKeyCoinType\<close> has succeeded with a
  non-zero coin type, then in the resulting state, and after any further calls of
  \<open>finalizeMnemonicKeyCoinType\<close>, \<open>appendLedgerKeyRing\<close>, \<open>changeKeyRingName\<close>,
  \<open>sign\<close> and \<open>deleteKeyRing\<close> of other vaults, a second call for the same vault
  and chain fails whatever its coin type: with AlreadyFinalized when that coin type is the
  chain's default or one of its alternatives, and with UnsupportedCoinType otherwise,
  because the coin type is checked before the tag; the state is left as it was; and
  \<open>needMnemonicKeyCoinTypeFinalize\<close> returns false.
\<close>

theorem finalize_once:
  assumes first: "finalizeMnemonicKeyCoinType e vaultId chainId coinType s = (Inr (), s1)"
    and nz: "coinType \<noteq> 0"
    and ci: "getChainInfo e chainId = Some ci"
    and ops: "list_all (\<lambda>op. \<not> deletes vaultId op) ops"
  shows "let s2 = fold (run e) ops s1 in
           finalizeMnemonicKeyCoinType e vaultId chainId coinType' s2 =
             (Inl (if coinTypeAssociated ci coinType' then AlreadyFinalized
                   else UnsupportedCoinType), s2)
           \<and> needMnemonicKeyCoinTypeFinalize e vaultId chainId s2 = Inr False"
proof -
  from first obtain v where
    u: "\<not> isLocked s" and v: "getVault vaultId s = Some v"
    and m: "insensitive v ''keyRingType'' = Some (PStr ''mnemonic'')"
    and s1: "s1 = setAndMergeInsensitiveToVault vaultId [coinTypeTag e chainId \<mapsto> PNum coinType] s"
    unfolding finalize_success_iff by blast
  have vid: "vid v = vaultId" using v by (rule getVault_Some_vid)
  have g: "getVault vaultId s1 =
             Some (v\<lparr>insensitive := insensitive v ++ [coinTypeTag e chainId \<mapsto> PNum coinType]\<rparr>)"
    by (simp add: s1 getVault_setAndMerge v vid)
  have l: "\<not> isLocked s1" using u by (simp add: s1)
  have tag1: "coinTypeTagOf e vaultId chainId s1 = Some (PNum coinType)"
    using g by (simp add: coinTypeTagOf_def)
  have ty1: "keyRingTypeOf vaultId s1 = Some (Some (PStr ''mnemonic''))"
    using g m coinTypeTag_neq_keyRingType [of e chainId] by (simp add: keyRingTypeOf_def)
  define s2 where "s2 = fold (run e) ops s1"
  have inv: "coinTypeTagOf e vaultId chainId s2 = Some (PNum coinType)"
    "keyRingTypeOf vaultId s2 = Some (Some (PStr ''mnemonic''))" "\<not> isLocked s2"
    using fold_run_invariants [of e vaultId chainId s1 ops] tag1 ty1 l nz ops
    by (simp_all add: s2_def)
  from inv(2) obtain v2 where v2: "getVault vaultId s2 = Some v2"
    and m2: "insensitive v2 ''keyRingType'' = Some (PStr ''mnemonic'')"
    by (auto simp: keyRingTypeOf_def)
  from inv(1) v2 have t2: "insensitive v2 (coinTypeTag e chainId) = Some (PNum coinType)"
    by (simp add: coinTypeTagOf_def)
  have "finalizeMnemonicKeyCoinType e vaultId chainId coinType' s2 =
             (Inl (if coinTypeAssociated ci coinType' then AlreadyFinalized
                   else UnsupportedCoinType), s2)
           \<and> needMnemonicKeyCoinTypeFinalize e vaultId chainId s2 = Inr False"
    using inv(3) ci v2 m2 t2 nz
    by (simp add: finalizeMnemonicKeyCoinType_def needMnemonicKeyCoinTypeFinalize_def)
  then show ?thesis by (simp add: s2_def Let_def)
qed

theorem finalize_once_witness:
  "let s2 = fold (run exampleEnv)
              [Sign ''cosmoshub-4'' ''a'' [] Keccak256, ChangeName ''a'' ''renamed'',
               FinalizeCoinType ''a'' ''cosmoshub-4'' 60, Delete ''b'' ''pw'']
              (snd (finalizeMnemonicKeyCoinType exampleEnv ''a'' ''cosmoshub-4'' 118
                      exampleState))
   in finalizeMnemonicKeyCoinType exampleEnv ''a'' ''cosmoshub-4'' 60 s2
        = (Inl AlreadyFinalized, s2)
      \<and> needMnemonicKeyCoinTypeFinalize exampleEnv ''a'' ''cosmoshub-4'' s2 = Inr False"
proof -
  have ops: "list_all (\<lambda>op. \<not> deletes ''a'' op)
               [Sign ''cosmoshub-4'' ''a'' [] Keccak256, ChangeName ''a'' ''renamed'',
                FinalizeCoinType ''a'' ''cosmoshub-4'' 60, Delete ''b'' ''pw'']"
    by simp
  have nz: "(118::int) \<noteq> 0" by simp
  have ok: "coinTypeAssociated \<lparr>bip44_coinType = 118, alternativeBIP44s = Some [60]\<rparr> 60"
    by (simp add: coinTypeAssociated_def)
  from finalize_once [OF example_finalize nz example_chain ops, of 60] ok
  show ?thesis by (simp only: if_True)
qed

text \<open>The claim as the spec words it fails: after a successful call, a second call with
  a coin type the chain does not list fails with UnsupportedCoinType, not with
  AlreadyFinalized.\<close>

theorem finalize_twice_counterexample:
  "fst (finalizeMnemonicKeyCoinType exampleEnv ''a'' ''cosmoshub-4'' 118 exampleState) = Inr ()
   \<and> fst (finalizeMnemonicKeyCoinType exampleEnv ''a'' ''cosmoshub-4'' 999
       (snd (finalizeMnemonicKeyCoinType exampleEnv ''a'' ''cosmoshub-4'' 118 exampleState)))
     = Inl UnsupportedCoinType
   \<and> fst (finalizeMnemonicKeyCoinType exampleEnv ''a'' ''cosmoshub-4'' 999
       (snd (finalizeMnemonicKeyCoinType exampleEnv ''a'' ''cosmoshub-4'' 118 exampleState)))
     \<noteq> Inl AlreadyFinalized"
proof -
  have l: "\<not> isLocked (snd (finalizeMnemonicKeyCoinType exampleEnv ''a'' ''cosmoshub-4'' 118
             exampleState))"
    by (simp add: finalizeMnemonicKeyCoinType_def exampleState_def split: option.splits)
  note ci = example_chain
  have "fst (finalizeMnemonicKeyCoinType exampleEnv ''a'' ''cosmoshub-4'' 118 exampleState)
          = Inr ()"
    using example_finalize by (metis fst_conv)
  moreover have "fst (finalizeMnemonicKeyCoinType exampleEnv ''a'' ''cosmoshub-4'' 999
       (snd (finalizeMnemonicKeyCoinType exampleEnv ''a'' ''cosmoshub-4'' 118 exampleState)))
     = Inl UnsupportedCoinType"
    using l ci by (simp add: finalizeMnemonicKeyCoinType_def [of _ _ _ 999] coinTypeAssociated_def)
  ultimately show ?thesis by simp
qed

text \<open>A defect of the code beside it: the tag is tested for truthiness, so the coin
  type 0 is written but reads as not finalized. After finalizing with 0, the vault still
  needs finalization and a second call with another coin type succeeds.\<close>

lemma finalize_zero_coinType_not_final:
  "fst (finalizeMnemonicKeyCoinType exampleEnv ''a'' ''zero-1'' 0 exampleState) = Inr ()
   \<and> needMnemonicKeyCoinTypeFinalize exampleEnv ''a'' ''zero-1''
        (snd (finalizeMnemonicKeyCoinType exampleEnv ''a'' ''zero-1'' 0 exampleState)) = Inr True
   \<and> fst (finalizeMnemonicKeyCoinType exampleEnv ''a'' ''zero-1'' 1
        (snd (finalizeMnemonicKeyCoinType exampleEnv ''a'' ''zero-1'' 0 exampleState))) = Inr ()"
proof -
  have tag: "coinTypeTag exampleEnv ''zero-1'' = ''keyRing-zero-coinType''"
    by (simp add: coinTypeTag_def exampleEnv_def)
  have ci: "getChainInfo exampleEnv ''zero-1''
              = Some \<lparr>bip44_coinType = 0, alternativeBIP44s = Some [1]\<rparr>"
    by (simp add: exampleEnv_def)
  have first: "finalizeMnemonicKeyCoinType exampleEnv ''a'' ''zero-1'' 0 exampleState
     = (Inr (), setAndMergeInsensitiveToVault ''a'' [''keyRing-zero-coinType'' \<mapsto> PNum 0]
                  exampleState)"
    by (simp add: finalizeMnemonicKeyCoinType_def coinTypeAssociated_def tag ci
          example_getVault_a example_unlocked exampleVaultA_def)
  have g: "getVault ''a'' (setAndMergeInsensitiveToVault ''a''
             [''keyRing-zero-coinType'' \<mapsto> PNum 0] exampleState)
           = Some (exampleVaultA\<lparr>insensitive := insensitive exampleVaultA
                                    ++ [''keyRing-zero-coinType'' \<mapsto> PNum 0]\<rparr>)"
    by (simp add: getVault_setAndMerge example_getVault_a) (simp add: exampleVaultA_def)
  show ?thesis
    unfolding first
    by (simp add: finalizeMnemonicKeyCoinType_def needMnemonicKeyCoinTypeFinalize_def
          coinTypeAssociated_def tag ci g example_unlocked exampleVaultA_def)
qed

text \<open>
  C6, as the code has it. For a chain the chains service knows and a coin type that is
  neither the chain's default nor one of its alternatives, \<open>finalizeMnemonicKeyCoinType\<close>
  fails and leaves the whole state unchanged, for every vault id: with
  UnsupportedCoinType when the key ring is unlocked, and with Locked when it is locked,
  the lock being checked first.
\<close>

theorem finalize_unsupported_coinType:
  assumes "getChainInfo e chainId = Some ci"
    and "coinType \<noteq> bip44_coinType ci"
    and "coinType \<notin> set (case alternativeBIP44s ci of None \<Rightarrow> [] | Some ps \<Rightarrow> ps)"
  shows "finalizeMnemonicKeyCoinType e vaultId chainId coinType s =
           (Inl (if isLocked s then Locked else UnsupportedCoinType), s)"
  using assms by (simp add: finalizeMnemonicKeyCoinType_def coinTypeAssociated_iff)

theorem finalize_unsupported_coinType_witness:
  "finalizeMnemonicKeyCoinType exampleEnv ''a'' ''cosmoshub-4'' 999 exampleState
     = (Inl UnsupportedCoinType, exampleState)
   \<and> finalizeMnemonicKeyCoinType exampleEnv ''nobody'' ''cosmoshub-4'' 999
        (exampleState\<lparr>isLocked := True\<rparr>)
     = (Inl Locked, exampleState\<lparr>isLocked := True\<rparr>)"
proof -
  note ci = example_chain
  have u: "\<not> isLocked exampleState" by (simp add: exampleState_def)
  from finalize_unsupported_coinType [OF ci, of 999 "''a''" exampleState]
       finalize_unsupported_coinType [OF ci, of 999 "''nobody''" "exampleState\<lparr>isLocked := True\<rparr>"]
       u
  show ?thesis by simp
qed

text \<open>The claim without the lock state fails: a locked key ring answers Locked.\<close>

theorem finalize_locked_counterexample:
  "getChainInfo exampleEnv ''cosmoshub-4''
     = Some \<lparr>bip44_coinType = 118, alternativeBIP44s = Some [60]\<rparr>
   \<and> fst (finalizeMnemonicKeyCoinType exampleEnv ''a'' ''cosmoshub-4'' 999
          (exampleState\<lparr>isLocked := True\<rparr>)) = Inl Locked
   \<and> fst (finalizeMnemonicKeyCoinType exampleEnv ''a'' ''cosmoshub-4'' 999
          (exampleState\<lparr>isLocked := True\<rparr>)) \<noteq> Inl UnsupportedCoinType"
  by (simp add: finalizeMnemonicKeyCoinType_def example_chain)

subsection \<open>Deleting a key ring\<close>

lemma deleteKeyRing_unfold:
  assumes "\<not> isLocked s" "getVault vaultId s = Some v" "checkUserPassword password s"
  shows "deleteKeyRing vaultId password s =
     (let wasSelected = (selectedVaultId s = Inr vaultId);
          rest = filter (\<lambda>w. vid w \<noteq> vaultId) (vaults s)
      in (Inr wasSelected,
          if wasSelected
          then s\<lparr>vaults := rest,
                 selected := (case rest of [] \<Rightarrow> None | w # _ \<Rightarrow> Some (vid w)),
                 dispatched := dispatched s @ [''keystore-changed'']\<rparr>
          else s\<lparr>vaults := rest\<rparr>))"
proof -
  from assms(2) have "vaults s \<noteq> []" by (auto simp: getVault_def)
  then obtain cur where cur: "selectedVaultId s = Inr cur"
    using selectedVaultId_nonempty by blast
  show ?thesis
    using assms cur
    by (cases "filter (\<lambda>w. vid w \<noteq> vaultId) (vaults s)")
       (auto simp: deleteKeyRing_def Let_def removeVault_def getKeyInfos_def getVaults_def
                   dispatchEvent_def)
qed

text \<open>
  C7. In an unlocked key ring and with the right password, deleting an existing vault
  removes it. When it was the selected one (as the getter \<open>selectedVaultId\<close> resolves
  it), the selection becomes the id of the first remaining vault, which exists, or
  becomes absent when no vault remains; otherwise the selection is kept. The event
  \<open>keystore-changed\<close> is dispatched exactly when the deleted vault was the selected
  one.
\<close>

theorem deleteKeyRing_reselects:
  assumes "\<not> isLocked s" and "checkUserPassword password s"
    and "getVault vaultId s = Some v"
  shows "let s' = snd (deleteKeyRing vaultId password s) in
     getVaults s' = filter (\<lambda>w. vid w \<noteq> vaultId) (getVaults s)
     \<and> (selectedVaultId s = Inr vaultId \<longrightarrow>
          (case getVaults s' of
             [] \<Rightarrow> selected s' = None \<and> selectedVaultId s' = Inl EmptyKeyRing
           | w # ws \<Rightarrow> selected s' = Some (vid w) \<and> selectedVaultId s' = Inr (vid w)
                       \<and> getVault (vid w) s' = Some w))
     \<and> (selectedVaultId s \<noteq> Inr vaultId \<longrightarrow> selected s' = selected s)
     \<and> dispatched s' =
         (if selectedVaultId s = Inr vaultId then dispatched s @ [''keystore-changed'']
          else dispatched s)"
  using deleteKeyRing_unfold [OF assms(1,3,2)]
  by (auto simp: Let_def getVaults_def selectedVaultId_def getVault_def split: list.splits)

theorem deleteKeyRing_reselects_witness:
  "selected (snd (deleteKeyRing ''a'' ''pw'' exampleState)) = Some ''b''
   \<and> selectedVaultId (snd (deleteKeyRing ''a'' ''pw'' exampleState)) = Inr ''b''
   \<and> dispatched (snd (deleteKeyRing ''a'' ''pw'' exampleState)) = [''keystore-changed'']
   \<and> selected (snd (deleteKeyRing ''b'' ''pw'' exampleState)) = Some ''a''
   \<and> dispatched (snd (deleteKeyRing ''b'' ''pw'' exampleState)) = []"
proof -
  have vs: "getVaults exampleState = [exampleVaultA, exampleVaultB]"
    "vid exampleVaultA = ''a''" "vid exampleVaultB = ''b''"
    "dispatched exampleState = []" "selected exampleState = Some ''a''"
    by (simp_all add: getVaults_def example_defs)
  from deleteKeyRing_reselects [OF example_unlocked example_password example_getVault_a]
       deleteKeyRing_reselects [OF example_unlocked example_password example_getVault_b]
  show ?thesis
    by (auto simp: Let_def example_selected vs)
qed

text \<open>
  C10. In an unlocked key ring and for an existing vault id, \<open>deleteKeyRing\<close> returns
  when the password is the user's, and the boolean it returns is true exactly when the
  getter \<open>selectedVaultId\<close>, with its fallback to the first vault, gave the deleted id
  at the time of the call; with another password it throws.
\<close>

theorem deleteKeyRing_returns_wasSelected:
  assumes "\<not> isLocked s" and "getVault vaultId s = Some v"
  shows "fst (deleteKeyRing vaultId password s) =
           (if checkUserPassword password s then Inr (selectedVaultId s = Inr vaultId)
            else Inl PasswordMismatch)"
proof (cases "checkUserPassword password s")
  case True
  from deleteKeyRing_unfold [OF assms True] True show ?thesis by (simp add: Let_def)
next
  case False
  with assms show ?thesis by (simp add: deleteKeyRing_def)
qed

theorem deleteKeyRing_returns_wasSelected_witness:
  "fst (deleteKeyRing ''a'' ''pw'' exampleState) = Inr True
   \<and> fst (deleteKeyRing ''b'' ''pw'' exampleState) = Inr False
   \<and> fst (deleteKeyRing ''b'' ''guess'' exampleState) = Inl PasswordMismatch"
proof -
  have wrong: "\<not> checkUserPassword ''guess'' exampleState"
    by (simp add: checkUserPassword_def exampleState_def)
  from deleteKeyRing_returns_wasSelected [OF example_unlocked example_getVault_a, of "''pw''"]
       deleteKeyRing_returns_wasSelected [OF example_unlocked example_getVault_b, of "''pw''"]
       deleteKeyRing_returns_wasSelected [OF example_unlocked example_getVault_b, of "''guess''"]
  show ?thesis by (simp add: example_password example_selected wrong)
qed

subsection \<open>Re-encoding a signature\<close>

lemma hexValue_table:
  "hexValue CHR ''0'' = Some 0" "hexValue CHR ''1'' = Some 1" "hexValue CHR ''2'' = Some 2"
  "hexValue CHR ''3'' = Some 3" "hexValue CHR ''4'' = Some 4" "hexValue CHR ''5'' = Some 5"
  "hexValue CHR ''6'' = Some 6" "hexValue CHR ''7'' = Some 7" "hexValue CHR ''8'' = Some 8"
  "hexValue CHR ''9'' = Some 9" "hexValue CHR ''a'' = Some 10" "hexValue CHR ''b'' = Some 11"
  "hexValue CHR ''c'' = Some 12" "hexValue CHR ''d'' = Some 13" "hexValue CHR ''e'' = Some 14"
  "hexValue CHR ''f'' = Some 15"
  by (simp_all add: hexValue_def)

lemma hexDigit_table:
  "hexDigit 0 = CHR ''0''" "hexDigit 1 = CHR ''1''" "hexDigit 2 = CHR ''2''"
  "hexDigit 3 = CHR ''3''" "hexDigit 4 = CHR ''4''" "hexDigit 5 = CHR ''5''"
  "hexDigit 6 = CHR ''6''" "hexDigit 7 = CHR ''7''" "hexDigit 8 = CHR ''8''"
  "hexDigit 9 = CHR ''9''" "hexDigit 10 = CHR ''a''" "hexDigit 11 = CHR ''b''"
  "hexDigit 12 = CHR ''c''" "hexDigit 13 = CHR ''d''" "hexDigit 14 = CHR ''e''"
  "hexDigit 15 = CHR ''f''"
  by (simp_all add: hexDigit_def)

lemma hexValue_hexDigit: "d < 16 \<Longrightarrow> hexValue (hexDigit d) = Some d"
proof -
  assume "d < 16"
  then have "d = 0 \<or> d = 1 \<or> d = 2 \<or> d = 3 \<or> d = 4 \<or> d = 5 \<or> d = 6 \<or> d = 7
    \<or> d = 8 \<or> d = 9 \<or> d = 10 \<or> d = 11 \<or> d = 12 \<or> d = 13 \<or> d = 14 \<or> d = 15"
    by arith
  then show ?thesis
    by (elim disjE) (simp_all only: hexDigit_table hexValue_table)
qed

lemma parseHexDigits_append:
  "parseHexDigits acc (xs @ ys) =
     (case parseHexDigits acc xs of None \<Rightarrow> None | Some a \<Rightarrow> parseHexDigits a ys)"
  by (induction xs arbitrary: acc) (auto split: option.splits)

lemma parseHexDigits_byte:
  "parseHexDigits acc [hexDigit (unat b div 16), hexDigit (unat b mod 16)]
     = Some (256 * acc + unat (b :: 8 word))"
proof -
  have "unat b < 256" using unsigned_less [of b] by simp
  then have "unat b div 16 < 16" by simp
  then show ?thesis by (simp add: hexValue_hexDigit)
qed

lemma parseHexDigits_toHex:
  "parseHexDigits acc (toHex bs) = Some (foldl (\<lambda>a b. 256 * a + unat b) acc bs)"
proof (induction bs arbitrary: acc)
  case Nil
  then show ?case by (simp add: toHex_def)
next
  case (Cons b bs)
  have "toHex (b # bs) = [hexDigit (unat b div 16), hexDigit (unat b mod 16)] @ toHex bs"
    by (simp add: toHex_def)
  then show ?case
    using Cons.IH parseHexDigits_byte [of acc b]
    by (simp only: parseHexDigits_append foldl_Cons option.case)
qed

lemma BigInt_toHex:
  assumes "bs \<noteq> []"
  shows "BigInt (''0x'' @ toHex bs) = Some (bigEndian bs)"
proof -
  from assms have "toHex bs \<noteq> []" by (cases bs) (simp_all add: toHex_def)
  then show ?thesis by (simp add: BigInt_def parseHexDigits_toHex bigEndian_def)
qed

lemma foldl_bigEndian_bound:
  "acc < 256 ^ k \<Longrightarrow> foldl (\<lambda>a b. 256 * a + unat (b :: 8 word)) acc bs < 256 ^ (k + length bs)"
proof (induction bs arbitrary: acc k)
  case Nil
  then show ?case by simp
next
  case (Cons b bs)
  have "unat b < 256" using unsigned_less [of b] by simp
  with Cons.prems have "256 * acc + unat b < 256 ^ Suc k"
    by simp
  from Cons.IH [OF this] show ?case by simp
qed

lemma bigEndian_bound: "bigEndian bs < 256 ^ length bs"
  using foldl_bigEndian_bound [of 0 0 bs] by (simp add: bigEndian_def)

lemma limbs:
  "n AND UINT_128_MAX = n mod 2 ^ 128" "drop_bit 128 n = n div 2 ^ 128"
proof -
  have "UINT_128_MAX = mask 128" by (simp only: UINT_128_MAX_def mask_eq_exp_minus_1)
  then have "n AND UINT_128_MAX = take_bit 128 n" by (simp only: take_bit_eq_mask)
  then show "n AND UINT_128_MAX = n mod 2 ^ 128" by (simp only: take_bit_eq_mod)
  show "drop_bit 128 n = n div 2 ^ 128" by (simp only: drop_bit_eq_div)
qed

lemma CairoUint256_toHex:
  assumes "bs \<noteq> []" and "length bs \<le> 32"
  shows "CairoUint256 (''0x'' @ toHex bs)
           = Inr \<lparr>low = bigEndian bs mod 2 ^ 128, high = bigEndian bs div 2 ^ 128\<rparr>"
proof -
  have "bigEndian bs < 256 ^ length bs" by (rule bigEndian_bound)
  also have "(256::nat) ^ length bs \<le> 256 ^ 32"
    using assms(2) by (intro power_increasing) simp_all
  also have "(256::nat) ^ 32 = 2 ^ 256" by simp
  finally have "\<not> bigEndian bs > UINT_256_MAX" by (simp add: UINT_256_MAX_def)
  then show ?thesis
    by (simp add: CairoUint256_def BigInt_toHex [OF assms(1)] limbs del: append.simps)
qed

lemma formatEthSignature_ok:
  assumes "sig_r sg \<noteq> []" and "length (sig_r sg) \<le> 32"
    and "sig_s sg \<noteq> []" and "length (sig_s sg) \<le> 32" and "sig_v sg = Some v"
  shows "formatEthSignature sg =
          Inr [''0x'' @ toString16 (bigEndian (sig_r sg) mod 2 ^ 128),
               ''0x'' @ toString16 (bigEndian (sig_r sg) div 2 ^ 128),
               ''0x'' @ toString16 (bigEndian (sig_s sg) mod 2 ^ 128),
               ''0x'' @ toString16 (bigEndian (sig_s sg) div 2 ^ 128),
               ''0x'' @ numberToString16 v]"
proof -
  note r = CairoUint256_toHex [OF assms(1,2)] and s = CairoUint256_toHex [OF assms(3,4)]
  show ?thesis
    unfolding formatEthSignature_def toUint256HexString_def Let_def
    by (simp only: assms(5) r s option.case sum.case uint256.simps uint256Hex.simps)
qed

lemma bigEndian_zeros: "bigEndian (replicate n 0 @ bs) = bigEndian bs"
proof -
  have "foldl (\<lambda>a b. 256 * a + unat (b :: 8 word)) 0 (replicate n 0) = 0"
    by (induction n) simp_all
  then show ?thesis by (simp add: bigEndian_def)
qed

lemma toString16_digit: "n < 16 \<Longrightarrow> toString16 n = [hexDigit n]"
  by (simp add: toString16.simps)

lemma formatEthSignature_example:
  "formatEthSignature
        \<lparr>sig_r = replicate 31 0 @ [1], sig_s = replicate 31 0 @ [2], sig_v = Some 1\<rparr>
        = Inr [''0x1'', ''0x0'', ''0x2'', ''0x0'', ''0x1'']"
proof -
  let ?sg = "\<lparr>sig_r = replicate 31 0 @ [1], sig_s = replicate 31 0 @ [2], sig_v = Some 1\<rparr>"
  have "formatEthSignature ?sg =
          Inr [''0x'' @ toString16 (bigEndian (sig_r ?sg) mod 2 ^ 128),
               ''0x'' @ toString16 (bigEndian (sig_r ?sg) div 2 ^ 128),
               ''0x'' @ toString16 (bigEndian (sig_s ?sg) mod 2 ^ 128),
               ''0x'' @ toString16 (bigEndian (sig_s ?sg) div 2 ^ 128),
               ''0x'' @ numberToString16 1]"
    by (rule formatEthSignature_ok) simp_all
  moreover have "bigEndian (replicate 31 0 @ [1]) = 1" "bigEndian (replicate 31 0 @ [2]) = 2"
    by (simp_all add: bigEndian_zeros) (simp_all add: bigEndian_def)
  ultimately show ?thesis
    by (simp add: toString16_digit numberToString16_def hexDigit_def)
qed

text \<open>
  C3. Without a recovery indicator \<open>formatEthSignature\<close> fails with InvalidSignature.
  With one, and with r and s of 1 to 32 bytes (a 256-bit unsigned integer in big-endian
  bytes), it returns the five fields \<open>[r-low, r-high, s-low, s-high, v]\<close> in this
  order, each \<open>0x\<close> followed by hexadecimal digits, the limbs being the value modulo
  \<open>2^128\<close> and the value divided by \<open>2^128\<close>. For r = 0x00..01, s = 0x00..02 and
  indicator 1 the fields are 0x1, 0x0, 0x2, 0x0, 0x1.
\<close>

theorem formatEthSignature_limbs:
  "(sig_v sg = None \<longrightarrow> formatEthSignature sg = Inl InvalidSignature)
   \<and> (sig_r sg \<noteq> [] \<and> length (sig_r sg) \<le> 32 \<and> sig_s sg \<noteq> [] \<and> length (sig_s sg) \<le> 32
        \<and> sig_v sg = Some v \<longrightarrow>
        formatEthSignature sg =
          Inr [''0x'' @ toString16 (bigEndian (sig_r sg) mod 2 ^ 128),
               ''0x'' @ toString16 (bigEndian (sig_r sg) div 2 ^ 128),
               ''0x'' @ toString16 (bigEndian (sig_s sg) mod 2 ^ 128),
               ''0x'' @ toString16 (bigEndian (sig_s sg) div 2 ^ 128),
               ''0x'' @ numberToString16 v])
   \<and> formatEthSignature
        \<lparr>sig_r = replicate 31 0 @ [1], sig_s = replicate 31 0 @ [2], sig_v = Some 1\<rparr>
        = Inr [''0x1'', ''0x0'', ''0x2'', ''0x0'', ''0x1'']"
proof (intro conjI impI)
  assume "sig_v sg = None"
  then show "formatEthSignature sg = Inl InvalidSignature"
    by (simp add: formatEthSignature_def)
next
  assume "sig_r sg \<noteq> [] \<and> length (sig_r sg) \<le> 32 \<and> sig_s sg \<noteq> [] \<and> length (sig_s sg) \<le> 32
        \<and> sig_v sg = Some v"
  then show "formatEthSignature sg =
          Inr [''0x'' @ toString16 (bigEndian (sig_r sg) mod 2 ^ 128),
               ''0x'' @ toString16 (bigEndian (sig_r sg) div 2 ^ 128),
               ''0x'' @ toString16 (bigEndian (sig_s sg) mod 2 ^ 128),
               ''0x'' @ toString16 (bigEndian (sig_s sg) div 2 ^ 128),
               ''0x'' @ numberToString16 v]"
    using formatEthSignature_ok [of sg v] by blast
next
  show "formatEthSignature
        \<lparr>sig_r = replicate 31 0 @ [1], sig_s = replicate 31 0 @ [2], sig_v = Some 1\<rparr>
        = Inr [''0x1'', ''0x0'', ''0x2'', ''0x0'', ''0x1'']"
    by (rule formatEthSignature_example)
qed

theorem formatEthSignature_limbs_witness:
  "formatEthSignature \<lparr>sig_r = [0x01, 0x00], sig_s = [0xff], sig_v = None\<rparr> = Inl InvalidSignature
   \<and> formatEthSignature \<lparr>sig_r = [0x01, 0x00], sig_s = [0xff], sig_v = Some 27\<rparr>
       = Inr [''0x100'', ''0x0'', ''0xff'', ''0x0'', ''0x1b'']
   \<and> formatEthSignature exampleSignature = Inr [''0x1'', ''0x0'', ''0x2'', ''0x0'', ''0x1'']"
proof -
  have "bigEndian [0x01, 0x00] = 256" "bigEndian [0xff] = 255"
    by (simp_all add: bigEndian_def)
  moreover have "toString16 256 = ''100''" "toString16 255 = ''ff''" "toString16 0 = ''0''"
    "numberToString16 27 = ''1b''"
    by (simp_all add: toString16.simps numberToString16_def hexDigit_def)
  ultimately show ?thesis
    using formatEthSignature_limbs [of "\<lparr>sig_r = [0x01, 0x00], sig_s = [0xff], sig_v = None\<rparr>" 27]
          formatEthSignature_limbs [of "\<lparr>sig_r = [0x01, 0x00], sig_s = [0xff], sig_v = Some 27\<rparr>" 27]
    by (simp add: exampleSignature_def)
qed

subsection \<open>The signer check\<close>

text \<open>
  C5. In each of the four signing functions (typed message, invoke, deploy-account and
  declare transaction): when the key derived from the vault has a \<open>hexAddress\<close> other
  than the claimed signer, the call fails with InvalidSigner and the state is what it
  was, whatever the hashing functions of the library and the strategies' \<open>sign\<close>
  would have done (they may be any functions, also throwing ones): the check comes
  before the hash is computed and before \<open>keyRingService.sign\<close> is called.
\<close>

theorem invalid_signer_rejected:
  assumes "getStarknetKey e vaultId chainId s = Inr key"
    and "hexAddress key \<noteq> signer"
  shows "signStarknetMessage e vaultId chainId signer typedData s = (Inl InvalidSigner, s)
       \<and> signStarknetTransaction e vaultId chainId signer transactions details s
           = (Inl InvalidSigner, s)
       \<and> signStarknetDeployAccountTransaction e vaultId chainId signer details s
           = (Inl InvalidSigner, s)
       \<and> signStarknetDeclareTransactionn e vaultId chainId signer details s
           = (Inl InvalidSigner, s)"
  using assms
  by (simp add: signStarknetMessage_def signStarknetTransaction_def
        signStarknetDeployAccountTransaction_def signStarknetDeclareTransactionn_def)

theorem invalid_signer_rejected_witness:
  "signStarknetMessage exampleStarknetEnv ''a'' ''SN_MAIN'' ''0xdead'' PNull exampleState
     = (Inl InvalidSigner, exampleState)
   \<and> signStarknetTransaction exampleStarknetEnv ''a'' ''SN_MAIN'' ''0xdead'' []
        (PObj [(''version'', PStr ''0x3'')]) exampleState
     = (Inl InvalidSigner, exampleState)
   \<and> signStarknetDeployAccountTransaction exampleStarknetEnv ''a'' ''SN_MAIN'' ''0xdead''
        (PObj [(''version'', PStr ''0x3'')]) exampleState
     = (Inl InvalidSigner, exampleState)
   \<and> signStarknetDeclareTransactionn exampleStarknetEnv ''a'' ''SN_MAIN'' ''0xdead''
        (PObj [(''version'', PStr ''0x3'')]) exampleState
     = (Inl InvalidSigner, exampleState)"
  using invalid_signer_rejected [OF example_key, of "''0xdead''" PNull "[]"
          "PObj [(''version'', PStr ''0x3'')]"]
  by simp

subsection \<open>Transaction versions\<close>

text \<open>The branch on \<open>details.version\<close>: a v2-style version hands the hash function
  the details with \<open>senderAddress\<close>, \<open>compiledCalldata\<close> and \<open>version\<close>; a v3-style
  version also overrides the two data-availability modes with their numbers (L1 is 0,
  L2 is 1); any other version throws. What the digests are is decided by the library's
  hash functions, which are parameters here.\<close>

lemma intDAM_values:
  "intDAM (PStr ''L1'') = Inr 0"
  "intDAM (PStr ''L2'') = Inr 1"
  "dam \<noteq> PStr ''L1'' \<Longrightarrow> dam \<noteq> PStr ''L2'' \<Longrightarrow> intDAM dam = Inl EDAMConversion"
  by (simp_all add: intDAM_def)

lemma versions_disjoint: "set ETransactionVersion2 \<inter> set ETransactionVersion3 = {}"
  by (simp add: ETransactionVersion2_def ETransactionVersion3_def)

lemma hashArgs_unsupported_version:
  assumes "\<not> versionIn ETransactionVersion2 details"
    and "\<not> versionIn ETransactionVersion3 details"
  shows "invokeHashArgs details compiledCalldata = Inl UnsupportedVersion"
    and "deployAccountHashArgs details compiledConstructorCalldata = Inl UnsupportedVersion"
    and "declareHashArgs details = Inl UnsupportedVersion"
  using assms
  by (simp_all add: invokeHashArgs_def deployAccountHashArgs_def declareHashArgs_def)

lemma invokeHashArgs_v2:
  assumes "versionIn ETransactionVersion2 details"
  shows "invokeHashArgs details compiledCalldata =
           Inr (spread details
                  [(''senderAddress'', getProp details ''walletAddress''),
                   (''compiledCalldata'', compiledCalldata),
                   (''version'', getProp details ''version'')])"
  using assms by (simp add: invokeHashArgs_def)

lemma damFields_modes:
  assumes "getProp details ''nonceDataAvailabilityMode'' = PStr n"
    and "getProp details ''feeDataAvailabilityMode'' = PStr f"
    and "n \<in> {''L1'', ''L2''}" and "f \<in> {''L1'', ''L2''}"
  shows "damFields details =
           Inr [(''nonceDataAvailabilityMode'', PNum (if n = ''L1'' then 0 else 1)),
                (''feeDataAvailabilityMode'', PNum (if f = ''L1'' then 0 else 1))]"
  using assms by (auto simp: damFields_def intDAM_def)

lemma invokeHashArgs_v3:
  assumes "versionIn ETransactionVersion3 details"
    and "damFields details = Inr dams"
  shows "invokeHashArgs details compiledCalldata =
           Inr (spread details
                  ([(''senderAddress'', getProp details ''walletAddress''),
                    (''compiledCalldata'', compiledCalldata),
                    (''version'', getProp details ''version'')] @ dams))"
proof -
  from assms(1) versions_disjoint have "\<not> versionIn ETransactionVersion2 details"
    by (auto simp: versionIn_def)
  with assms show ?thesis by (simp add: invokeHashArgs_def)
qed

lemma getProp_spread_version:
  "getProp (spread details ((''version'', v) # extra)) ''version'' = v"
  "getProp (spread details (a # b # (''version'', v) # extra)) ''version''
     = (if fst a = ''version'' then snd a else if fst b = ''version'' then snd b else v)"
  by (cases details; simp)+

text \<open>The objects hashed for a v2-style and for a v3-style invoke transaction are never
  the same: their \<open>version\<close> properties differ.\<close>

lemma invokeHashArgs_v2_v3_differ:
  assumes "versionIn ETransactionVersion2 d2" and "versionIn ETransactionVersion3 d3"
    and "invokeHashArgs d2 c2 = Inr a2" and "invokeHashArgs d3 c3 = Inr a3"
  shows "a2 \<noteq> a3"
proof
  assume eq: "a2 = a3"
  from assms(2) versions_disjoint have n2: "\<not> versionIn ETransactionVersion2 d3"
    by (auto simp: versionIn_def)
  have "getProp a2 ''version'' = getProp d2 ''version''"
    using assms(1,3) by (auto simp: invokeHashArgs_def getProp_spread_version)
  moreover have "getProp a3 ''version'' = getProp d3 ''version''"
    using assms(2,4) n2
    by (auto simp: invokeHashArgs_def getProp_spread_version split: sum.splits)
  ultimately have "getProp d2 ''version'' = getProp d3 ''version''" using eq by simp
  with assms(1,2) versions_disjoint show False
    by (auto simp: versionIn_def)
qed

lemma signStarknetTransaction_unsupported_version:
  assumes "getStarknetKey e vaultId chainId s = Inr key"
    and "hexAddress key = signer"
    and "getExecuteCalldata e transactions (getProp details ''cairoVersion'') = Inr cd"
    and "\<not> versionIn ETransactionVersion2 details"
    and "\<not> versionIn ETransactionVersion3 details"
  shows "signStarknetTransaction e vaultId chainId signer transactions details s
           = (Inl UnsupportedVersion, s)"
  using assms by (simp add: signStarknetTransaction_def hashArgs_unsupported_version)

subsection \<open>Derivation-path validation\<close>

text \<open>The paths that pass are exactly those with integer fields in range.\<close>

lemma validateBIP44Path_iff:
  "validateBIP44Path p = Inr () \<longleftrightarrow>
     (\<exists>a c i. account p = Fin (of_int a) \<and> 0 \<le> a \<and> change p = Fin (of_int c) \<and> (c = 0 \<or> c = 1)
        \<and> addressIndex p = Fin (of_int i) \<and> 0 \<le> i)"
proof
  assume ok: "validateBIP44Path p = Inr ()"
  from ok obtain a :: int where a: "account p = Fin (of_int a)" "0 \<le> a"
    by (cases "account p") (auto simp: validateBIP44Path_def split: if_splits)
  from ok have ch: "change p = Fin 0 \<or> change p = Fin 1"
    by (auto simp: validateBIP44Path_def split: if_splits)
  from ok obtain i :: int where i: "addressIndex p = Fin (of_int i)" "0 \<le> i"
    by (cases "addressIndex p") (auto simp: validateBIP44Path_def split: if_splits)
  have "\<exists>c::int. change p = Fin (of_int c) \<and> (c = 0 \<or> c = 1)"
    using ch by (metis of_int_0 of_int_1)
  with a i show "\<exists>a c i. account p = Fin (of_int a) \<and> 0 \<le> a \<and> change p = Fin (of_int c)
      \<and> (c = 0 \<or> c = 1) \<and> addressIndex p = Fin (of_int i) \<and> 0 \<le> i"
    by blast
next
  assume "\<exists>a c i. account p = Fin (of_int a) \<and> 0 \<le> a \<and> change p = Fin (of_int c)
      \<and> (c = 0 \<or> c = 1) \<and> addressIndex p = Fin (of_int i) \<and> 0 \<le> i"
  then show "validateBIP44Path p = Inr ()"
    by (auto simp: validateBIP44Path_def)
qed

text \<open>
  C8. Validation of a derivation path: account \<open>-1\<close> fails with InvalidInput; change
  \<open>2\<close> fails; address index \<open>-1\<close> fails; and every path whose account is a
  non-negative integer, whose change is 0 or 1 and whose address index is a non-negative
  integer passes (so change 0 and change 1 both succeed).
\<close>

theorem validateBIP44Path_cases:
  fixes a c i :: int
  shows "(account p = Fin (- 1) \<longrightarrow> validateBIP44Path p = Inl (InvalidInput Account))
       \<and> (change p = Fin 2 \<longrightarrow> (\<exists>f. validateBIP44Path p = Inl (InvalidInput f)))
       \<and> (addressIndex p = Fin (- 1) \<longrightarrow> (\<exists>f. validateBIP44Path p = Inl (InvalidInput f)))
       \<and> (0 \<le> a \<and> (c = 0 \<or> c = 1) \<and> 0 \<le> i \<longrightarrow>
            validateBIP44Path \<lparr>account = Fin (of_int a), change = Fin (of_int c),
                               addressIndex = Fin (of_int i)\<rparr> = Inr ())"
  by (auto simp: validateBIP44Path_def)

theorem validateBIP44Path_cases_witness:
  "validateBIP44Path \<lparr>account = Fin (- 1), change = Fin 0, addressIndex = Fin 0\<rparr>
     = Inl (InvalidInput Account)
   \<and> (\<exists>f. validateBIP44Path \<lparr>account = Fin 0, change = Fin 2, addressIndex = Fin 0\<rparr>
          = Inl (InvalidInput f))
   \<and> (\<exists>f. validateBIP44Path \<lparr>account = Fin 0, change = Fin 1, addressIndex = Fin (- 1)\<rparr>
          = Inl (InvalidInput f))
   \<and> validateBIP44Path \<lparr>account = Fin 0, change = Fin 0, addressIndex = Fin 0\<rparr> = Inr ()
   \<and> validateBIP44Path \<lparr>account = Fin 44, change = Fin 1, addressIndex = Fin 7\<rparr> = Inr ()"
  using validateBIP44Path_cases [of "\<lparr>account = Fin (- 1), change = Fin 0, addressIndex = Fin 0\<rparr>" 0 0 0]
        validateBIP44Path_cases [of "\<lparr>account = Fin 0, change = Fin 2, addressIndex = Fin 0\<rparr>" 44 1 7]
        validateBIP44Path_cases [of "\<lparr>account = Fin 0, change = Fin 1, addressIndex = Fin (- 1)\<rparr>" 0 0 0]
  by simp

end
